theory Spec2Isabelle
  imports Main
begin

section \<open>Document model\<close>

text \<open>
  The document is a flat store of nodes addressed by id. Text nodes hold a string,
  containers hold the ordered list of their children's ids (the content path),
  annotations hold two coordinates on a text property. A coordinate is a path
  (node id followed by a property name) and an integer offset.
\<close>

type_synonym nid = string

type_synonym path = "string list"

record coordinate =
  path :: path
  offset :: int

datatype node =
    TextNode nid string string "int option"
  | ContainerNode nid string "nid list"
  | ListNode nid string "nid list"
  | Annotation nid string coordinate coordinate bool bool
  | OtherNode nid string

text \<open>
  \<open>TextNode id type content level\<close>: paragraphs, headings and list items (the level is
  present on the node types that declare it).
  \<open>ContainerNode id type nodes\<close>, \<open>ListNode id type items\<close>.
  \<open>Annotation id type start end _isInlineNode autoExpandRight\<close>.
  \<open>OtherNode id type\<close>: a node with no text and no children (an image, a figure).
\<close>

fun node_id :: "node \<Rightarrow> nid" where
  "node_id (TextNode i t c l) = i"
| "node_id (ContainerNode i t ns) = i"
| "node_id (ListNode i t ns) = i"
| "node_id (Annotation i t s e il ax) = i"
| "node_id (OtherNode i t) = i"

fun node_type :: "node \<Rightarrow> string" where
  "node_type (TextNode i t c l) = t"
| "node_type (ContainerNode i t ns) = t"
| "node_type (ListNode i t ns) = t"
| "node_type (Annotation i t s e il ax) = t"
| "node_type (OtherNode i t) = t"

datatype error = Error string | TypeError string

datatype mode = ModeBefore | ModeAfter | ModeFull

datatype selection =
    NullSelection
  | PropertySelection coordinate coordinate "nid option"
  | ContainerSelection coordinate coordinate nid
  | NodeSelection nid nid mode
  | CustomSelection

text \<open>\<open>coor.getNodeId()\<close> and \<open>coor.path[0]\<close>: the first element of the path, undefined on an empty path.\<close>

definition getNodeId :: "coordinate \<Rightarrow> nid option" where
  "getNodeId c = (case path c of [] \<Rightarrow> None | x # xs \<Rightarrow> Some x)"

subsection \<open>Primitive operations\<close>

text \<open>
  Modelled from the spec: the Document class and its operation classes are not among the
  sources. The spec (data model, Operation) gives four invertible primitives: create,
  delete, update(path, diff) and set(path, value), with diffs that insert or delete text
  or list elements or shift a value. An operation records what its inverse needs (the
  deleted text, the removed id, the previous value).
\<close>

datatype diff =
    TextInsert int string
  | TextDelete int string
  | ArrayInsert int nid
  | ArrayDelete int nid
  | Shift int

datatype val = IntVal int | CoorVal coordinate | StrVal string | Undefined

datatype operation =
    Create node
  | Delete node
  | Update path diff
  | SetOp path val val

fun invert_diff :: "diff \<Rightarrow> diff" where
  "invert_diff (TextInsert p s) = TextDelete p s"
| "invert_diff (TextDelete p s) = TextInsert p s"
| "invert_diff (ArrayInsert p v) = ArrayDelete p v"
| "invert_diff (ArrayDelete p v) = ArrayInsert p v"
| "invert_diff (Shift k) = Shift (- k)"

fun invert :: "operation \<Rightarrow> operation" where
  "invert (Create n) = Delete n"
| "invert (Delete n) = Create n"
| "invert (Update p d) = Update p (invert_diff d)"
| "invert (SetOp p v old) = SetOp p old v"

definition insertAt :: "int \<Rightarrow> 'a \<Rightarrow> 'a list \<Rightarrow> 'a list" where
  "insertAt pos v xs = take (nat pos) xs @ v # drop (nat pos) xs"

definition removeAt :: "int \<Rightarrow> 'a list \<Rightarrow> 'a list" where
  "removeAt pos xs = take (nat pos) xs @ drop (Suc (nat pos)) xs"

definition apply_diff :: "string \<Rightarrow> diff \<Rightarrow> node \<Rightarrow> node" where
  "apply_diff prop d n =
     (case n of
        TextNode i t c l \<Rightarrow>
          (if prop = ''content'' then
             (case d of
                TextInsert p s \<Rightarrow> TextNode i t (take (nat p) c @ s @ drop (nat p) c) l
              | TextDelete p s \<Rightarrow> TextNode i t (take (nat p) c @ drop (nat p + length s) c) l
              | _ \<Rightarrow> n)
           else n)
      | ContainerNode i t ns \<Rightarrow>
          (if prop = ''nodes'' then
             (case d of
                ArrayInsert p v \<Rightarrow> ContainerNode i t (insertAt p v ns)
              | ArrayDelete p v \<Rightarrow> ContainerNode i t (removeAt p ns)
              | _ \<Rightarrow> n)
           else n)
      | ListNode i t ns \<Rightarrow>
          (if prop = ''items'' then
             (case d of
                ArrayInsert p v \<Rightarrow> ListNode i t (insertAt p v ns)
              | ArrayDelete p v \<Rightarrow> ListNode i t (removeAt p ns)
              | _ \<Rightarrow> n)
           else n)
      | Annotation i t s e il ax \<Rightarrow>
          (case d of
             Shift k \<Rightarrow>
               (if prop = ''start'' then Annotation i t (s\<lparr>offset := offset s + k\<rparr>) e il ax
                else if prop = ''end'' then Annotation i t s (e\<lparr>offset := offset e + k\<rparr>) il ax
                else n)
           | _ \<Rightarrow> n)
      | OtherNode i t \<Rightarrow> n)"

definition apply_set :: "string \<Rightarrow> val \<Rightarrow> node \<Rightarrow> node" where
  "apply_set prop v n =
     (case n of
        TextNode i t c l \<Rightarrow>
          (if prop = ''level'' then
             (case v of IntVal k \<Rightarrow> TextNode i t c (Some k) | Undefined \<Rightarrow> TextNode i t c None | _ \<Rightarrow> n)
           else if prop = ''content'' then
             (case v of StrVal s \<Rightarrow> TextNode i t s l | _ \<Rightarrow> n)
           else n)
      | Annotation i t s e il ax \<Rightarrow>
          (case v of
             CoorVal c \<Rightarrow>
               (if prop = ''start'' then Annotation i t c e il ax
                else if prop = ''end'' then Annotation i t s c il ax
                else n)
           | _ \<Rightarrow> n)
      | _ \<Rightarrow> n)"

definition mapNode :: "nid \<Rightarrow> (node \<Rightarrow> node) \<Rightarrow> node list \<Rightarrow> node list" where
  "mapNode i f ns = map (\<lambda>n. if node_id n = i then f n else n) ns"

text \<open>\<open>doc._applyOp(op)\<close>: changes the data, records nothing.\<close>

fun applyOp :: "operation \<Rightarrow> node list \<Rightarrow> node list" where
  "applyOp (Create n) ns = ns @ [n]"
| "applyOp (Delete n) ns = filter (\<lambda>m. node_id m \<noteq> node_id n) ns"
| "applyOp (Update p d) ns =
     (case p of [i, prop] \<Rightarrow> mapNode i (apply_diff prop d) ns | _ \<Rightarrow> ns)"
| "applyOp (SetOp p v old) ns =
     (case p of [i, prop] \<Rightarrow> mapNode i (apply_set prop v) ns | _ \<Rightarrow> ns)"

record document =
  data :: "node list"
  ops :: "operation list"

definition tx_get :: "document \<Rightarrow> nid \<Rightarrow> node option" where
  "tx_get d i = find (\<lambda>n. node_id n = i) (data d)"

text \<open>An operation performed through the editing interface is applied and appended to \<open>_ops\<close>.\<close>

definition record_op :: "operation \<Rightarrow> document \<Rightarrow> document" where
  "record_op op d = d\<lparr>data := applyOp op (data d), ops := ops d @ [op]\<rparr>"

definition tx_create :: "node \<Rightarrow> document \<Rightarrow> error + document" where
  "tx_create n d =
     (if tx_get d (node_id n) = None then Inr (record_op (Create n) d)
      else Inl (Error ''Node already exists''))"

definition tx_delete :: "nid \<Rightarrow> document \<Rightarrow> error + document" where
  "tx_delete i d =
     (case tx_get d i of
        None \<Rightarrow> Inl (Error ''Node does not exist'')
      | Some n \<Rightarrow> Inr (record_op (Delete n) d))"

text \<open>The argument of \<open>tx.update\<close>: \<open>{type: 'insert', start, text}\<close>, \<open>{type: 'delete', start, end}\<close>,
  \<open>{type: 'insert', pos, value}\<close>, \<open>{type: 'delete', pos}\<close>, \<open>{type: 'shift', value}\<close>.\<close>

datatype diffspec =
    InsertText int string
  | DeleteText int int
  | InsertValue int nid
  | DeleteValue int
  | ShiftBy int

definition substring :: "string \<Rightarrow> int \<Rightarrow> int \<Rightarrow> string" where
  "substring s a b = take (nat b - nat a) (drop (nat a) s)"

definition make_diff :: "string \<Rightarrow> diffspec \<Rightarrow> node \<Rightarrow> diff option" where
  "make_diff prop sp n =
     (case n of
        TextNode i t c l \<Rightarrow>
          (if prop = ''content'' then
             (case sp of
                InsertText p s \<Rightarrow>
                  (if 0 \<le> p \<and> p \<le> int (length c) then Some (TextInsert p s) else None)
              | DeleteText a b \<Rightarrow>
                  (if 0 \<le> a \<and> a \<le> b \<and> b \<le> int (length c)
                   then Some (TextDelete a (substring c a b)) else None)
              | _ \<Rightarrow> None)
           else None)
      | ContainerNode i t ns \<Rightarrow>
          (if prop = ''nodes'' then
             (case sp of
                InsertValue p v \<Rightarrow>
                  (if 0 \<le> p \<and> p \<le> int (length ns) then Some (ArrayInsert p v) else None)
              | DeleteValue p \<Rightarrow>
                  (if 0 \<le> p \<and> p < int (length ns) then Some (ArrayDelete p (ns ! nat p)) else None)
              | _ \<Rightarrow> None)
           else None)
      | ListNode i t ns \<Rightarrow>
          (if prop = ''items'' then
             (case sp of
                InsertValue p v \<Rightarrow>
                  (if 0 \<le> p \<and> p \<le> int (length ns) then Some (ArrayInsert p v) else None)
              | DeleteValue p \<Rightarrow>
                  (if 0 \<le> p \<and> p < int (length ns) then Some (ArrayDelete p (ns ! nat p)) else None)
              | _ \<Rightarrow> None)
           else None)
      | Annotation i t s e il ax \<Rightarrow>
          (if prop = ''start'' \<or> prop = ''end'' then
             (case sp of ShiftBy k \<Rightarrow> Some (Shift k) | _ \<Rightarrow> None)
           else None)
      | OtherNode i t \<Rightarrow> None)"

definition tx_update :: "path \<Rightarrow> diffspec \<Rightarrow> document \<Rightarrow> error + document" where
  "tx_update p sp d =
     (case p of
        [i, prop] \<Rightarrow>
          (case tx_get d i of
             None \<Rightarrow> Inl (Error ''Property does not exist'')
           | Some n \<Rightarrow>
               (case make_diff prop sp n of
                  None \<Rightarrow> Inl (Error ''Illegal update'')
                | Some df \<Rightarrow> Inr (record_op (Update p df) d)))
      | _ \<Rightarrow> Inl (Error ''Illegal path''))"

definition old_val :: "string \<Rightarrow> node \<Rightarrow> val" where
  "old_val prop n =
     (case n of
        TextNode i t c l \<Rightarrow>
          (if prop = ''level'' then (case l of None \<Rightarrow> Undefined | Some k \<Rightarrow> IntVal k)
           else if prop = ''content'' then StrVal c
           else Undefined)
      | Annotation i t s e il ax \<Rightarrow>
          (if prop = ''start'' then CoorVal s else if prop = ''end'' then CoorVal e else Undefined)
      | _ \<Rightarrow> Undefined)"

definition tx_set :: "path \<Rightarrow> val \<Rightarrow> document \<Rightarrow> error + document" where
  "tx_set p v d =
     (case p of
        [i, prop] \<Rightarrow>
          (case tx_get d i of
             None \<Rightarrow> Inl (Error ''Property does not exist'')
           | Some n \<Rightarrow> Inr (record_op (SetOp p v (old_val prop n)) d))
      | _ \<Rightarrow> Inl (Error ''Illegal path''))"

text \<open>Sequencing of calls that may throw: the first exception ends the sequence.\<close>

definition andThen :: "error + 'a \<Rightarrow> ('a \<Rightarrow> error + 'b) \<Rightarrow> error + 'b" where
  "andThen m f = (case m of Inl e \<Rightarrow> Inl e | Inr x \<Rightarrow> f x)"

fun forEach :: "('a \<Rightarrow> document \<Rightarrow> error + document) \<Rightarrow> 'a list \<Rightarrow> document \<Rightarrow> error + document" where
  "forEach f [] d = Inr d"
| "forEach f (x # xs) d = andThen (f x d) (forEach f xs)"

section \<open>NodeEditing\<close>

text \<open>\<open>tx.get(path)\<close> on the path of a text property; undefined elsewhere.\<close>

definition getProperty :: "document \<Rightarrow> path \<Rightarrow> string option" where
  "getProperty tx p =
     (case p of
        [i, prop] \<Rightarrow>
          (if prop = ''content''
           then (case tx_get tx i of Some (TextNode j t c l) \<Rightarrow> Some c | _ \<Rightarrow> None)
           else None)
      | _ \<Rightarrow> None)"

text \<open>
  Modelled from the spec: \<open>tx.getAnnotations(path)\<close> and \<open>tx.createSelection\<close> belong to the
  Document class. The first yields every annotation anchored on the path (its start
  coordinate has that path). The second builds a property selection, collapsed when no
  end offset is given; a selection is validated against the live document, so the call
  fails when the path has no text or when the offset breaks the invariant
  \<open>0 \<le> offset \<le> length\<close> of a coordinate.
\<close>

definition getAnnotations :: "document \<Rightarrow> path \<Rightarrow> node list" where
  "getAnnotations d p =
     filter (\<lambda>n. case n of Annotation i t s e il ax \<Rightarrow> path s = p | _ \<Rightarrow> False) (data d)"

definition createSelection :: "document \<Rightarrow> path \<Rightarrow> int \<Rightarrow> nid option \<Rightarrow> error + selection" where
  "createSelection tx p startOffset containerId =
     (case getProperty tx p of
        None \<Rightarrow> Inl (Error ''Property does not exist'')
      | Some text \<Rightarrow>
          (if startOffset < 0 \<or> startOffset > int (length text) then Inl (Error ''Invalid startOffset'')
           else Inr (PropertySelection \<lparr>path = p, offset = startOffset\<rparr>
                       \<lparr>path = p, offset = startOffset\<rparr> containerId)))"

text \<open>
  The body of the \<open>forEach\<close> of \<open>replaceText\<close>, branch by branch in the source's order.
  The last branch only logs a warning.
\<close>

definition updateAnnotation ::
  "coordinate \<Rightarrow> coordinate \<Rightarrow> string \<Rightarrow> bool \<Rightarrow> node \<Rightarrow> document \<Rightarrow> error + document" where
  "updateAnnotation start endc text typeover anno tx =
     (case anno of
        Annotation i t s e il ax \<Rightarrow>
          (if offset e < offset start then Inr tx
           else if offset s \<ge> offset endc then
             andThen (tx_update [i, ''start''] (ShiftBy (offset start - offset endc + int (length text))) tx)
               (tx_update [i, ''end''] (ShiftBy (offset start - offset endc + int (length text))))
           else if offset s \<ge> offset start \<and>
                   (offset e < offset endc \<or> (offset e \<le> offset endc \<and> il)) then
             tx_delete i tx
           else if offset s \<ge> offset start \<and> offset e \<ge> offset endc then
             andThen
               (if offset s > offset start \<or> \<not> typeover
                then tx_update [i, ''start''] (ShiftBy (offset start - offset s + int (length text))) tx
                else Inr tx)
               (tx_update [i, ''end''] (ShiftBy (offset start - offset endc + int (length text))))
           else if offset s < offset start \<and> offset e < offset endc then
             tx_update [i, ''end''] (ShiftBy (offset start - offset e + int (length text))) tx
           else if offset e = offset start \<and> \<not> ax then Inr tx
           else if offset s < offset start \<and> offset e \<ge> offset endc then
             (if il then Inr tx
              else tx_update [i, ''end''] (ShiftBy (offset start - offset endc + int (length text))) tx)
           else Inr tx)
      | _ \<Rightarrow> Inr tx)"

definition replaceText ::
  "document \<Rightarrow> node \<Rightarrow> coordinate \<Rightarrow> coordinate \<Rightarrow> string \<Rightarrow> error + (selection \<times> document)" where
  "replaceText tx node start endc text =
     andThen
       (if offset start \<noteq> offset endc
        then tx_update (path start) (DeleteText (offset start) (offset endc)) tx
        else Inr tx)
       (\<lambda>tx1. andThen (tx_update (path start) (InsertText (offset start) text) tx1)
       (\<lambda>tx2. andThen
          (forEach (updateAnnotation start endc text (offset start \<noteq> offset endc))
             (getAnnotations tx2 (path start)) tx2)
       (\<lambda>tx3. andThen (createSelection tx3 (path start) (offset start + int (length text)) None)
       (\<lambda>sel. Inr (sel, tx3)))))"

definition insertText ::
  "document \<Rightarrow> node \<Rightarrow> coordinate \<Rightarrow> string \<Rightarrow> error + (selection \<times> document)" where
  "insertText tx node coor text = replaceText tx node coor coor text"

text \<open>
  The annotation-shift policy read for a collapsed range, in the words of the spec: an
  annotation ending before the insertion point is untouched; one starting at or after
  it is shifted as a whole by the length of the text; one ending exactly at the
  insertion point that does not expand to the right is untouched; an inline node never
  expands; any other annotation spans the insertion point and its end moves by the
  length of the text.
\<close>

definition shiftCollapsed :: "coordinate \<Rightarrow> string \<Rightarrow> node \<Rightarrow> document \<Rightarrow> error + document" where
  "shiftCollapsed coor text anno tx =
     (case anno of
        Annotation i t s e il ax \<Rightarrow>
          (if offset e < offset coor then Inr tx
           else if offset coor \<le> offset s then
             andThen (tx_update [i, ''start''] (ShiftBy (int (length text))) tx)
               (tx_update [i, ''end''] (ShiftBy (int (length text))))
           else if offset e = offset coor \<and> \<not> ax then Inr tx
           else if il then Inr tx
           else tx_update [i, ''end''] (ShiftBy (int (length text))) tx)
      | _ \<Rightarrow> Inr tx)"

text \<open>What a test reads off the document afterwards.\<close>

definition textOf :: "document \<Rightarrow> nid \<Rightarrow> string option" where
  "textOf d i = (case tx_get d i of Some (TextNode j t c l) \<Rightarrow> Some c | _ \<Rightarrow> None)"

definition annotationBounds :: "document \<Rightarrow> nid \<Rightarrow> (path \<times> int \<times> int) option" where
  "annotationBounds d i =
     (case tx_get d i of
        Some (Annotation j t s e il ax) \<Rightarrow> Some (path s, offset s, offset e)
      | _ \<Rightarrow> None)"

text \<open>The scenario of the spec: the text "hello world" with one annotation on \<open>[0,5)\<close>.\<close>

definition helloNode :: node where
  "helloNode = TextNode ''t1'' ''paragraph'' ''hello world'' None"

definition helloDoc :: "bool \<Rightarrow> bool \<Rightarrow> document" where
  "helloDoc il ax =
     \<lparr>data = [helloNode,
              Annotation ''a1'' ''strong'' \<lparr>path = [''t1'', ''content''], offset = 0\<rparr>
                \<lparr>path = [''t1'', ''content''], offset = 5\<rparr> il ax],
      ops = []\<rparr>"

section \<open>Transaction\<close>

text \<open>
  \<open>DocumentChange\<close>: the recorded operations and the selection before and after.
\<close>

record change =
  change_ops :: "operation list"
  change_before :: selection
  change_after :: selection

text \<open>
  The fields are those the constructor assigns: \<open>master\<close>, \<open>stage\<close> (the fresh instance
  handed to the superclass as \<open>_document\<close>), \<open>_isTransacting\<close>; the selection is the
  editing interface's. \<open>us_stage\<close> stands for the property \<open>_stage\<close> that \<open>_rollback\<close>
  reads: no statement of the class assigns it, so the constructor leaves it undefined.
\<close>

record transaction =
  master :: document
  stage :: document
  us_stage :: "document option"
  isTransacting :: bool
  txSelection :: selection

definition newInstance :: "document \<Rightarrow> document" where
  "newInstance doc = \<lparr>data = [], ops = []\<rparr>"

definition Transaction :: "document \<Rightarrow> transaction" where
  "Transaction doc =
     \<lparr>master = doc, stage = newInstance doc, us_stage = None,
      isTransacting = False, txSelection = NullSelection\<rparr>"

definition setSelection :: "selection \<Rightarrow> transaction \<Rightarrow> transaction" where
  "setSelection sel t = t\<lparr>txSelection := sel\<rparr>"

text \<open>\<open>_reset\<close>: empties the stage's operation list and the selection.\<close>

definition reset :: "transaction \<Rightarrow> transaction" where
  "reset t = setSelection NullSelection (t\<lparr>stage := (stage t)\<lparr>ops := []\<rparr>\<rparr>)"

text \<open>\<open>_sync\<close>: replays the master's pending operations on the stage and empties them.\<close>

definition sync :: "transaction \<Rightarrow> transaction" where
  "sync t =
     t\<lparr>stage := (stage t)\<lparr>data := fold applyOp (ops (master t)) (data (stage t))\<rparr>,
       master := (master t)\<lparr>ops := []\<rparr>\<rparr>"

text \<open>
  \<open>_rollback\<close>: \<open>let ops = this._stage._ops\<close> comes first; with \<open>_stage\<close> undefined the member
  access throws a TypeError and nothing is undone. Otherwise the inverses of \<open>ops\<close> are
  applied to the stage from the last to the first, and \<open>ops\<close> is emptied.
  The result is the exception thrown, if any, and the transaction as it is left.
\<close>

definition rollback :: "transaction \<Rightarrow> error option \<times> transaction" where
  "rollback t =
     (case us_stage t of
        None \<Rightarrow> (Some (TypeError ''Cannot read property _ops of undefined''), t)
      | Some s \<Rightarrow>
          (None,
           t\<lparr>stage := (stage t)\<lparr>data := fold (\<lambda>op. applyOp (invert op)) (rev (ops s)) (data (stage t))\<rparr>,
             us_stage := Some (s\<lparr>ops := []\<rparr>)\<rparr>))"

text \<open>
  A transformation is a function of the transaction: it returns the exception it threw,
  if any, and the transaction as it left it (what it did before throwing stays done).
  \<open>None\<close> as the first argument of \<open>recordChange\<close> is an argument that is not a function.
\<close>

type_synonym transformation = "transaction \<Rightarrow> error option \<times> transaction"

definition recordChange ::
  "transformation option \<Rightarrow> selection \<Rightarrow> transaction \<Rightarrow> (error + change option) \<times> transaction" where
  "recordChange transformation sel t =
     (if isTransacting t then (Inl (Error ''Nested transactions are not supported.''), t)
      else case transformation of
        None \<Rightarrow> (Inl (Error ''Document.transaction() requires a transformation function.''), t)
      | Some f \<Rightarrow>
          (let t1 = reset (t\<lparr>isTransacting := True\<rparr>);
               t2 = setSelection sel t1;
               selBefore = txSelection t2
           in case f t2 of
                (None, t3) \<Rightarrow>
                  (Inr (if ops (stage t3) \<noteq> []
                        then Some \<lparr>change_ops = ops (stage t3), change_before = selBefore,
                                   change_after = txSelection t3\<rparr>
                        else None),
                   t3\<lparr>isTransacting := False\<rparr>)
              | (Some e, t3) \<Rightarrow>
                  (case rollback t3 of
                     (Some e', t4) \<Rightarrow> (Inl e', t4)
                   | (None, t4) \<Rightarrow> (Inl e, t4\<lparr>isTransacting := False\<rparr>))))"

text \<open>A transformation that creates one paragraph and then throws.\<close>

definition createThenThrow :: transformation where
  "createThenThrow t =
     (case tx_create (TextNode ''p1'' ''paragraph'' ''abc'' None) (stage t) of
        Inl e \<Rightarrow> (Some e, t)
      | Inr d \<Rightarrow> (Some (Error ''boom''), t\<lparr>stage := d\<rparr>))"

section \<open>Helpers of the editing behaviours\<close>

text \<open>
  Modelled from the spec: the node classes, \<open>uuid\<close>, \<open>selectionHelpers\<close> and
  \<open>documentHelpers\<close> are not among the sources. A node object is a live view of the
  document: what a method reads is the node's current state (\<open>live\<close>). A text node's
  path is \<open>[id, 'content']\<close>, its length the length of its content, and it is empty when
  its content is. \<open>tx.create\<close> of data without an id draws a new id (\<open>uuid\<close>: here the type
  followed by a suffix longer than every id in use). \<open>deleteNode\<close> deletes the node
  outright. \<open>selectCursor\<close> is a cursor at the start (or, for mode after, the end) of a
  text node, and a node selection on any other node.
\<close>

definition live :: "document \<Rightarrow> node \<Rightarrow> node" where
  "live tx n = (case tx_get tx (node_id n) of Some m \<Rightarrow> m | None \<Rightarrow> n)"

definition getPath :: "node \<Rightarrow> path" where
  "getPath n = [node_id n, ''content'']"

definition getText :: "document \<Rightarrow> node \<Rightarrow> string option" where
  "getText tx n = (case live tx n of TextNode i t c l \<Rightarrow> Some c | _ \<Rightarrow> None)"

definition isEmpty :: "document \<Rightarrow> node \<Rightarrow> bool" where
  "isEmpty tx n =
     (case live tx n of
        TextNode i t c l \<Rightarrow> c = []
      | ContainerNode i t ns \<Rightarrow> ns = []
      | ListNode i t ns \<Rightarrow> ns = []
      | _ \<Rightarrow> False)"

definition uuid :: "document \<Rightarrow> string \<Rightarrow> nid" where
  "uuid tx ty =
     ty @ ''_'' @ replicate (Suc (foldr (\<lambda>n m. max (length (node_id n)) m) (data tx) 0)) (CHR ''x'')"

definition createText :: "string \<Rightarrow> string \<Rightarrow> int option \<Rightarrow> document \<Rightarrow> error + (node \<times> document)" where
  "createText ty c l tx =
     andThen (tx_create (TextNode (uuid tx ty) ty c l) tx)
       (\<lambda>tx1. Inr (TextNode (uuid tx ty) ty c l, tx1))"

definition deleteNode :: "node \<Rightarrow> document \<Rightarrow> error + document" where
  "deleteNode n tx = tx_delete (node_id n) tx"

definition selectCursor :: "document \<Rightarrow> node \<Rightarrow> nid \<Rightarrow> mode \<Rightarrow> selection" where
  "selectCursor tx n containerId m =
     (case live tx n of
        TextNode i t c l \<Rightarrow>
          PropertySelection \<lparr>path = [i, ''content''], offset = (if m = ModeAfter then int (length c) else 0)\<rparr>
            \<lparr>path = [i, ''content''], offset = (if m = ModeAfter then int (length c) else 0)\<rparr>
            (Some containerId)
      | _ \<Rightarrow> NodeSelection (node_id n) containerId m)"

text \<open>
  Modelled from the spec: \<open>annotationHelpers.transferAnnotations(tx, path, offset, newPath,
  newOffset)\<close> moves every annotation on \<open>path\<close> anchored at or after \<open>offset\<close> to
  \<open>newPath\<close>, rebased so that \<open>offset\<close> becomes \<open>newOffset\<close>.
\<close>

definition transferAnnotation :: "int \<Rightarrow> path \<Rightarrow> int \<Rightarrow> node \<Rightarrow> document \<Rightarrow> error + document" where
  "transferAnnotation off newPath newOffset anno tx =
     (case anno of
        Annotation i t s e il ax \<Rightarrow>
          (if offset s \<ge> off then
             andThen (tx_set [i, ''start''] (CoorVal \<lparr>path = newPath, offset = newOffset + offset s - off\<rparr>) tx)
               (tx_set [i, ''end''] (CoorVal \<lparr>path = newPath, offset = newOffset + offset e - off\<rparr>))
           else Inr tx)
      | _ \<Rightarrow> Inr tx)"

definition transferAnnotations :: "path \<Rightarrow> int \<Rightarrow> path \<Rightarrow> int \<Rightarrow> document \<Rightarrow> error + document" where
  "transferAnnotations p off newPath newOffset tx =
     forEach (transferAnnotation off newPath newOffset) (getAnnotations tx p) tx"

text \<open>
  Modelled from the spec: \<open>documentHelpers.deleteTextRange(tx, start, end)\<close>. An absent
  bound defaults to the start (offset 0) or the end (offset = length) of the text on the
  other bound's path; it fails when both are absent. It deletes the text and adjusts the
  annotations; the adjustment is \<open>annotationHelpers.deletedText\<close>, whose rules the spec
  does not give: it is the parameter \<open>deletedText\<close>.
\<close>

type_synonym adjust = "path \<Rightarrow> int \<Rightarrow> int \<Rightarrow> document \<Rightarrow> error + document"

definition firstOf :: "'a option \<Rightarrow> 'a option \<Rightarrow> 'a option" where
  "firstOf a b = (case a of Some x \<Rightarrow> Some x | None \<Rightarrow> b)"

definition deleteTextRange ::
  "adjust \<Rightarrow> document \<Rightarrow> coordinate option \<Rightarrow> coordinate option \<Rightarrow> error + document" where
  "deleteTextRange deletedText tx start endc =
     (case firstOf start endc of
        None \<Rightarrow> Inl (Error ''start and end may not both be null'')
      | Some c \<Rightarrow>
          (case getProperty tx (path c) of
             None \<Rightarrow> Inl (TypeError ''Cannot read property length of undefined'')
           | Some text \<Rightarrow>
               andThen
                 (tx_update (path c)
                    (DeleteText (case start of None \<Rightarrow> 0 | Some s \<Rightarrow> offset s)
                       (case endc of None \<Rightarrow> int (length text) | Some e \<Rightarrow> offset e)) tx)
                 (deletedText (path c) (case start of None \<Rightarrow> 0 | Some s \<Rightarrow> offset s)
                    (case endc of None \<Rightarrow> int (length text) | Some e \<Rightarrow> offset e))))"

section \<open>TextNodeEditing\<close>

record splitResult =
  before :: "node option"
  after :: "node option"
  replace :: "node option"
  selection :: "selection option"

text \<open>
  \<open>splitNode(tx, node, coor)\<close>. The schema's default text type is the parameter
  \<open>defaultTextType\<close>. \<open>node.toJSON()\<close> copies the node's properties, so the new node
  keeps the level; the node created at offset 0 is given a type and a content only.
  The text behaviour is registered for text nodes: on any other node the copy has no
  counterpart in the model, which answers with an error.
\<close>

definition TextNodeEditing_splitNode ::
  "string \<Rightarrow> document \<Rightarrow> node \<Rightarrow> coordinate \<Rightarrow> error + (splitResult \<times> document)" where
  "TextNodeEditing_splitNode defaultTextType tx node coor =
     (if offset coor = 0 then
        andThen (createText (node_type node) [] None tx)
          (\<lambda>(n, tx1). Inr (\<lparr>before = Some n, after = None, replace = None, selection = None\<rparr>, tx1))
      else
        (case getProperty tx (path coor) of
           None \<Rightarrow> Inl (TypeError ''Cannot read property substring of undefined'')
         | Some text \<Rightarrow>
             (case live tx node of
                TextNode i t c l \<Rightarrow>
                  andThen
                    (createText (if offset coor = int (length text) then defaultTextType else t)
                       (drop (nat (offset coor)) text) l tx)
                    (\<lambda>(newNode, tx1).
                       andThen (transferAnnotations (path coor) (offset coor) (getPath newNode) 0 tx1)
                    (\<lambda>tx2.
                       andThen (tx_update (path coor) (DeleteText (offset coor) (int (length text))) tx2)
                    (\<lambda>tx3.
                       Inr (\<lparr>before = None, after = Some newNode, replace = None, selection = None\<rparr>, tx3))))
              | _ \<Rightarrow> Inl (Error ''not a text node''))))"

text \<open>
  \<open>deleteRange(tx, node, start, end)\<close>. \<open>(start || end)\<close> is \<open>firstOf start end\<close>; with both
  null the member access throws. When the range is not on the node the method logs an
  error and returns null. After the deletion \<open>start = start || end\<close>, and the cursor is
  put at that coordinate's path and offset.
\<close>

definition TextNodeEditing_deleteRange ::
  "adjust \<Rightarrow> document \<Rightarrow> node \<Rightarrow> coordinate option \<Rightarrow> coordinate option
     \<Rightarrow> error + (selection option \<times> document)" where
  "TextNodeEditing_deleteRange deletedText tx node start endc =
     (case firstOf start endc of
        None \<Rightarrow> Inl (TypeError ''Cannot read property path of null'')
      | Some c \<Rightarrow>
          (if getNodeId c \<noteq> Some (node_id node) then Inr (None, tx)
           else
             andThen (deleteTextRange deletedText tx start endc)
               (\<lambda>tx1. andThen (createSelection tx1 (path c) (offset c) None)
               (\<lambda>sel. Inr (Some sel, tx1)))))"

section \<open>Editing behaviours and their registry\<close>

text \<open>
  \<open>tx.getEditing(node)\<close> looks the node's behaviour up in a registry that callers can
  extend, so the registry is a parameter: a function from nodes to behaviours, a
  behaviour being the record of the methods the container code calls. \<open>merge\<close> is the
  one method a behaviour may lack. \<open>selectMergeType\<close> answers a type, null, or
  undefined (\<open>types[0]\<close> of an empty list).
\<close>

record options =
  noMerge :: bool

datatype mergeType = MergeType string | Null | UndefinedType

datatype direction = Left | Right

record editing =
  ed_getMergeAsTypes :: "document \<Rightarrow> node \<Rightarrow> coordinate \<Rightarrow> error + string list"
  ed_selectMergeType :: "document \<Rightarrow> node \<Rightarrow> string list \<Rightarrow> coordinate \<Rightarrow> error + mergeType"
  ed_convertForMerge ::
    "document \<Rightarrow> node \<Rightarrow> coordinate \<Rightarrow> mergeType \<Rightarrow> node \<Rightarrow> error + (node \<times> document)"
  ed_mergeNode ::
    "document \<Rightarrow> node \<Rightarrow> mergeType \<Rightarrow> node \<Rightarrow> coordinate \<Rightarrow> node
       \<Rightarrow> error + (selection option \<times> document)"
  ed_deleteRange ::
    "document \<Rightarrow> node \<Rightarrow> coordinate option \<Rightarrow> coordinate option \<Rightarrow> options
       \<Rightarrow> error + (selection option \<times> document)"
  ed_merge ::
    "(document \<Rightarrow> node \<Rightarrow> coordinate \<Rightarrow> direction \<Rightarrow> error + (selection option \<times> document)) option"

text \<open>
  The collaborators that are not among the sources and that the spec leaves open:
  the registry, the root of a node, \<open>isEntirelySelected\<close> and \<open>createNodeSelection\<close> of
  the selection helpers (the second is given the document, a node id and a container
  id; what kind of selection it builds is its own affair), the schema's default text
  type.
\<close>

record env =
  getEditing :: "node \<Rightarrow> editing"
  getRoot :: "document \<Rightarrow> node \<Rightarrow> node"
  isEntirelySelected :: "document \<Rightarrow> node \<Rightarrow> coordinate option \<Rightarrow> coordinate option \<Rightarrow> bool"
  createNodeSelection :: "document \<Rightarrow> nid \<Rightarrow> nid \<Rightarrow> selection"
  defaultTextType :: string

section \<open>Container\<close>

text \<open>
  Modelled from the spec: the Container class is not among the sources. Its content path
  is \<open>[id, 'nodes']\<close>; positions are 0-based indices into the child ids; the position
  of a node is that of the child it resolves to (its root), -1 when there is none, and
  an error when \<open>strict\<close> is asked for; the child at a position outside the list is
  undefined.
\<close>

definition getContentPath :: "node \<Rightarrow> path" where
  "getContentPath container = [node_id container, ''nodes'']"

definition nodes :: "document \<Rightarrow> node \<Rightarrow> nid list" where
  "nodes tx container = (case live tx container of ContainerNode i t ns \<Rightarrow> ns | _ \<Rightarrow> [])"

fun indexOf :: "'a list \<Rightarrow> 'a \<Rightarrow> int" where
  "indexOf [] x = - 1"
| "indexOf (y # ys) x = (if y = x then 0 else if indexOf ys x < 0 then - 1 else indexOf ys x + 1)"

definition getPosition :: "(document \<Rightarrow> node \<Rightarrow> node) \<Rightarrow> document \<Rightarrow> node \<Rightarrow> nid \<Rightarrow> int" where
  "getPosition root tx container x =
     (case tx_get tx x of
        None \<Rightarrow> - 1
      | Some n \<Rightarrow> indexOf (nodes tx container) (node_id (root tx n)))"


definition nodeIdAt :: "document \<Rightarrow> node \<Rightarrow> int \<Rightarrow> nid option" where
  "nodeIdAt tx container pos =
     (if 0 \<le> pos \<and> pos < int (length (nodes tx container))
      then Some (nodes tx container ! nat pos) else None)"

definition getChildAt :: "document \<Rightarrow> node \<Rightarrow> int \<Rightarrow> node option" where
  "getChildAt tx container pos = Option.bind (nodeIdAt tx container pos) (tx_get tx)"

section \<open>ContainerEditing\<close>

text \<open>\<open>show\<close> (here \<open>showNode\<close>) of one node, given by its id; \<open>pos\<close> absent means the end.\<close>

definition showNode ::
  "document \<Rightarrow> node \<Rightarrow> nid \<Rightarrow> int option \<Rightarrow> error + document" where
  "showNode tx container nodeId pos =
     tx_update (getContentPath container)
       (InsertValue (case pos of None \<Rightarrow> int (length (nodes tx container)) | Some p \<Rightarrow> p) nodeId) tx"

text \<open>\<open>show\<close> of an array of nodes: one after the other, at increasing positions.\<close>

fun showAll :: "document \<Rightarrow> node \<Rightarrow> nid list \<Rightarrow> int \<Rightarrow> error + document" where
  "showAll tx container [] pos = Inr tx"
| "showAll tx container (n # ns) pos =
     andThen (showNode tx container n (Some pos)) (\<lambda>tx1. showAll tx1 container ns (pos + 1))"

definition hideAt :: "document \<Rightarrow> node \<Rightarrow> int \<Rightarrow> error + document" where
  "hideAt tx container pos = tx_update (getContentPath container) (DeleteValue pos) tx"

definition hide :: "(document \<Rightarrow> node \<Rightarrow> node) \<Rightarrow> document \<Rightarrow> node \<Rightarrow> nid \<Rightarrow> error + document" where
  "hide root tx container nodeId = hideAt tx container (getPosition root tx container nodeId)"

text \<open>
  \<open>mergeNodes\<close>. When the target selects null, the source is hidden and deleted if it
  offered \<open>'remove'\<close>, and a node selection is returned; otherwise the source converts
  itself and the target merges it.
\<close>

definition mergeNodes ::
  "env \<Rightarrow> document \<Rightarrow> node \<Rightarrow> node \<Rightarrow> coordinate \<Rightarrow> node \<Rightarrow> coordinate \<Rightarrow> direction
     \<Rightarrow> error + (selection option \<times> document)" where
  "mergeNodes ev tx container source sourceCoor target targetCoor direction =
     andThen (ed_getMergeAsTypes (getEditing ev source) tx source sourceCoor)
       (\<lambda>sourceTypes.
     andThen (ed_selectMergeType (getEditing ev target) tx target sourceTypes targetCoor)
       (\<lambda>ty.
          if ty = Null then
            (if ''remove'' \<in> set sourceTypes then
               andThen (hide (getRoot ev) tx container (node_id source))
                 (\<lambda>tx1. andThen (deleteNode source tx1)
                 (\<lambda>tx2. Inr (Some (createNodeSelection ev tx2 (node_id target) (node_id container)), tx2)))
             else
               Inr (Some (createNodeSelection ev tx
                            (if direction = Left then node_id target else node_id source)
                            (node_id container)), tx))
          else
            andThen (ed_convertForMerge (getEditing ev source) tx source sourceCoor ty container)
              (\<lambda>(sourceNode, tx1).
                 ed_mergeNode (getEditing ev target) tx1 target ty sourceNode targetCoor container)))"

text \<open>
  \<open>merge\<close>. The coordinate \<open>{ path: [id] }\<close> built for the neighbour carries no offset;
  none is read, and the model writes 0.
\<close>

definition merge ::
  "env \<Rightarrow> document \<Rightarrow> node \<Rightarrow> coordinate \<Rightarrow> direction \<Rightarrow> error + (selection option \<times> document)" where
  "merge ev tx container coor direction =
     (case getNodeId coor of
        None \<Rightarrow> Inl (TypeError ''Cannot read property id of undefined'')
      | Some cid \<Rightarrow>
          (case getChildAt tx container (getPosition (getRoot ev) tx container cid) of
             None \<Rightarrow> Inl (TypeError ''Cannot read property id of undefined'')
           | Some node \<Rightarrow>
               andThen
                 (if node_id node \<noteq> cid then
                    (case ed_merge (getEditing ev node) of
                       None \<Rightarrow> Inr (None, tx)
                     | Some m \<Rightarrow> m tx node coor direction)
                  else Inr (None, tx))
                 (\<lambda>(sel, tx1).
                    case sel of
                      Some s \<Rightarrow> Inr (Some s, tx1)
                    | None \<Rightarrow>
                        (if direction = Left \<and> getPosition (getRoot ev) tx container cid > 0 then
                           (case getChildAt tx1 container (getPosition (getRoot ev) tx container cid - 1) of
                              None \<Rightarrow> Inl (TypeError ''Cannot read property id of undefined'')
                            | Some target \<Rightarrow>
                                mergeNodes ev tx1 container node coor target
                                  \<lparr>path = [node_id target], offset = 0\<rparr> direction)
                         else if direction = Right \<and>
                                 getPosition (getRoot ev) tx container cid
                                   < int (length (nodes tx1 container)) - 1 then
                           (case getChildAt tx1 container (getPosition (getRoot ev) tx container cid + 1) of
                              None \<Rightarrow> Inl (TypeError ''Cannot read property id of undefined'')
                            | Some source \<Rightarrow>
                                mergeNodes ev tx1 container source
                                  \<lparr>path = [node_id source], offset = 0\<rparr> node coor direction)
                         else Inr (None, tx1)))))"





section \<open>The default and the text behaviour\<close>

text \<open>\<open>NodeEditing\<close>: what a node type with no behaviour of its own gets.\<close>

definition NodeEditing_getMergeAsTypes :: "document \<Rightarrow> node \<Rightarrow> coordinate \<Rightarrow> error + string list" where
  "NodeEditing_getMergeAsTypes tx node coor =
     Inr (if getNodeId coor = Some (node_id node) then [node_type node] else [])"

definition NodeEditing_convertForMerge ::
  "(document \<Rightarrow> node \<Rightarrow> node) \<Rightarrow> document \<Rightarrow> node \<Rightarrow> coordinate \<Rightarrow> mergeType \<Rightarrow> node
     \<Rightarrow> error + (node \<times> document)" where
  "NodeEditing_convertForMerge root tx node coor ty container =
     andThen (hide root tx container (node_id node)) (\<lambda>tx1. Inr (node, tx1))"

definition NodeEditing :: "(document \<Rightarrow> node \<Rightarrow> node) \<Rightarrow> editing" where
  "NodeEditing root =
     \<lparr>ed_getMergeAsTypes = NodeEditing_getMergeAsTypes,
      ed_selectMergeType = (\<lambda>tx node types coor. Inr Null),
      ed_convertForMerge = NodeEditing_convertForMerge root,
      ed_mergeNode = (\<lambda>tx node ty source coor container.
         andThen (deleteNode source tx) (\<lambda>tx1. Inr (None, tx1))),
      ed_deleteRange = (\<lambda>tx node start endc opts. Inl (Error ''not implemented'')),
      ed_merge = None\<rparr>"

definition TextNodeEditing_getMergeAsTypes :: "document \<Rightarrow> node \<Rightarrow> coordinate \<Rightarrow> error + string list" where
  "TextNodeEditing_getMergeAsTypes tx node coor =
     Inr (if getNodeId coor \<noteq> Some (node_id node) then []
          else if isEmpty tx node then [''text'', ''remove''] else [''text''])"

definition TextNodeEditing_selectMergeType ::
  "document \<Rightarrow> node \<Rightarrow> string list \<Rightarrow> coordinate \<Rightarrow> error + mergeType" where
  "TextNodeEditing_selectMergeType tx node types coor =
     Inr (if getNodeId coor \<noteq> Some (node_id node) then Null
          else if isEmpty tx node then (case types of [] \<Rightarrow> UndefinedType | ty # tys \<Rightarrow> MergeType ty)
          else if ''text'' \<in> set types then MergeType ''text'' else Null)"

definition TextNodeEditing_mergeNode ::
  "(document \<Rightarrow> node \<Rightarrow> node) \<Rightarrow> document \<Rightarrow> node \<Rightarrow> mergeType \<Rightarrow> node \<Rightarrow> coordinate \<Rightarrow> node
     \<Rightarrow> error + (selection option \<times> document)" where
  "TextNodeEditing_mergeNode root tx node ty source coor container =
     (if getNodeId coor \<noteq> Some (node_id node) then Inr (None, tx)
      else if isEmpty tx node then
        andThen (hide root tx container (node_id node))
          (\<lambda>tx1. andThen (showNode tx1 container (node_id source)
                            (Some (getPosition root tx container (node_id node))))
          (\<lambda>tx2. andThen (deleteNode node tx2)
          (\<lambda>tx3. Inr (Some (selectCursor tx3 source (node_id container) ModeBefore), tx3))))
      else if ty = MergeType ''text'' then
        (case (getText tx node, getText tx source) of
           (Some text, Some sourceText) \<Rightarrow>
             andThen (tx_update (getPath node) (InsertText (int (length text)) sourceText) tx)
               (\<lambda>tx1. andThen (transferAnnotations (getPath source) 0 (getPath node) (int (length text)) tx1)
               (\<lambda>tx2. andThen (deleteNode source tx2)
               (\<lambda>tx3. andThen (createSelection tx3 (getPath node) (int (length text))
                                (Some (node_id container)))
               (\<lambda>sel. Inr (Some sel, tx3)))))
         | _ \<Rightarrow> Inl (TypeError ''getText is not a function''))
      else Inr (None, tx))"

definition TextNodeEditing :: "(document \<Rightarrow> node \<Rightarrow> node) \<Rightarrow> adjust \<Rightarrow> editing" where
  "TextNodeEditing root deletedText =
     \<lparr>ed_getMergeAsTypes = TextNodeEditing_getMergeAsTypes,
      ed_selectMergeType = TextNodeEditing_selectMergeType,
      ed_convertForMerge = NodeEditing_convertForMerge root,
      ed_mergeNode = TextNodeEditing_mergeNode root,
      ed_deleteRange = (\<lambda>tx node start endc opts. TextNodeEditing_deleteRange deletedText tx node start endc),
      ed_merge = None\<rparr>"

text \<open>
  A root function for examples: the parent of a node is the list that holds its id among
  its items, and a node in no list is its own root.
\<close>

definition listRoot :: "document \<Rightarrow> node \<Rightarrow> node" where
  "listRoot tx n =
     (case find (\<lambda>m. case m of ListNode i t ns \<Rightarrow> node_id n \<in> set ns | _ \<Rightarrow> False) (data tx) of
        Some m \<Rightarrow> m
      | None \<Rightarrow> n)"

text \<open>No adjustment: what \<open>deletedText\<close> has to do on a path without annotations.\<close>

definition noAdjust :: adjust where
  "noAdjust p a b tx = Inr tx"

text \<open>
  The registry as the Editing constructor fills it, for documents of text nodes and
  nodes without a behaviour of their own.
\<close>

definition behaviours :: "(document \<Rightarrow> node \<Rightarrow> node) \<Rightarrow> adjust \<Rightarrow> node \<Rightarrow> editing" where
  "behaviours root deletedText n =
     (case n of
        TextNode i t c l \<Rightarrow> TextNodeEditing root deletedText
      | _ \<Rightarrow> NodeEditing root)"

text \<open>
  Modelled from the spec: a node is entirely selected when the selection covers the
  whole node. For a text node: the start bound is absent or at offset 0 and the end
  bound is absent or at the length of the text.
\<close>

definition entirelySelected ::
  "document \<Rightarrow> node \<Rightarrow> coordinate option \<Rightarrow> coordinate option \<Rightarrow> bool" where
  "entirelySelected tx n start endc =
     (case live tx n of
        TextNode i t c l \<Rightarrow>
          (case start of None \<Rightarrow> True | Some s \<Rightarrow> offset s = 0) \<and>
          (case endc of None \<Rightarrow> True | Some e \<Rightarrow> offset e \<ge> int (length c))
      | _ \<Rightarrow> True)"

text \<open>
  A \<open>createNodeSelection\<close> for examples: a text node is selected by a property selection
  over its whole text, any other node by a node selection, a missing node not at all.
\<close>

definition wholeNodeSelection :: "document \<Rightarrow> nid \<Rightarrow> nid \<Rightarrow> selection" where
  "wholeNodeSelection tx nodeId containerId =
     (case tx_get tx nodeId of
        None \<Rightarrow> NullSelection
      | Some n \<Rightarrow>
          (case n of
             TextNode i t c l \<Rightarrow>
               PropertySelection \<lparr>path = [i, ''content''], offset = 0\<rparr>
                 \<lparr>path = [i, ''content''], offset = int (length c)\<rparr> (Some containerId)
           | _ \<Rightarrow> NodeSelection nodeId containerId ModeFull))"

definition isNodeSelection :: "selection \<Rightarrow> bool" where
  "isNodeSelection s = (case s of NodeSelection i c m \<Rightarrow> True | _ \<Rightarrow> False)"

definition stdEnv :: env where
  "stdEnv =
     \<lparr>getEditing = behaviours listRoot noAdjust, getRoot = listRoot,
      isEntirelySelected = entirelySelected, createNodeSelection = wholeNodeSelection,
      defaultTextType = ''paragraph''\<rparr>"

text \<open>A body holding "foo" and "bar", the second with an annotation on \<open>[0,2)\<close>.\<close>

definition fooBarDoc :: document where
  "fooBarDoc =
     \<lparr>data = [ContainerNode ''body'' ''container'' [''p1'', ''p2''],
              TextNode ''p1'' ''paragraph'' ''foo'' None,
              TextNode ''p2'' ''paragraph'' ''bar'' None,
              Annotation ''a1'' ''strong'' \<lparr>path = [''p2'', ''content''], offset = 0\<rparr>
                \<lparr>path = [''p2'', ''content''], offset = 2\<rparr> False False],
      ops = []\<rparr>"

section \<open>Editing: indent and dedent\<close>

text \<open>
  \<open>indent(tx)\<close> and \<open>dedent(tx)\<close> read \<open>tx.selection\<close> and change the document only. The
  root of a node (\<open>getRoot\<close>, which follows the parent back-references) is the parameter \<open>root\<close>:
  the back-references are kept by another collaborator. \<open>item.level < 3\<close> is false for
  a node without a level.
\<close>

definition isList :: "node \<Rightarrow> bool" where
  "isList n = (case n of ListNode i t ns \<Rightarrow> True | _ \<Rightarrow> False)"

definition level :: "node \<Rightarrow> int option" where
  "level n = (case n of TextNode i t c l \<Rightarrow> l | _ \<Rightarrow> None)"

definition indent :: "(document \<Rightarrow> node \<Rightarrow> node) \<Rightarrow> selection \<Rightarrow> document \<Rightarrow> error + document" where
  "indent root sel tx =
     (case sel of
        PropertySelection start endc containerId \<Rightarrow>
          (case Option.bind (getNodeId start) (tx_get tx) of
             None \<Rightarrow> Inl (TypeError ''Cannot read property root of undefined'')
           | Some item \<Rightarrow>
               (if isList (root tx item) then
                  (case level item of
                     Some l \<Rightarrow>
                       (if l < 3 then tx_set [node_id item, ''level''] (IntVal (l + 1)) tx else Inr tx)
                   | None \<Rightarrow> Inr tx)
                else Inr tx))
      | _ \<Rightarrow> Inr tx)"

definition dedent :: "(document \<Rightarrow> node \<Rightarrow> node) \<Rightarrow> selection \<Rightarrow> document \<Rightarrow> error + document" where
  "dedent root sel tx =
     (case sel of
        PropertySelection start endc containerId \<Rightarrow>
          (case Option.bind (getNodeId start) (tx_get tx) of
             None \<Rightarrow> Inl (TypeError ''Cannot read property root of undefined'')
           | Some item \<Rightarrow>
               (if isList (root tx item) then
                  (case level item of
                     Some l \<Rightarrow>
                       (if l > 1 then tx_set [node_id item, ''level''] (IntVal (l - 1)) tx else Inr tx)
                   | None \<Rightarrow> Inr tx)
                else Inr tx))
      | _ \<Rightarrow> Inr tx)"

datatype command = Indent | Dedent

fun run :: "(document \<Rightarrow> node \<Rightarrow> node) \<Rightarrow> selection \<Rightarrow> command list \<Rightarrow> document \<Rightarrow> error + document" where
  "run root sel [] tx = Inr tx"
| "run root sel (Indent # cs) tx = andThen (indent root sel tx) (run root sel cs)"
| "run root sel (Dedent # cs) tx = andThen (dedent root sel tx) (run root sel cs)"

definition levelOf :: "document \<Rightarrow> nid \<Rightarrow> int option" where
  "levelOf tx i = Option.bind (tx_get tx i) level"

definition isPropertySelection :: "selection \<Rightarrow> bool" where
  "isPropertySelection s = (case s of PropertySelection a b c \<Rightarrow> True | _ \<Rightarrow> False)"

definition listDoc :: document where
  "listDoc =
     \<lparr>data = [ListNode ''l1'' ''list'' [''i1'', ''i2''],
              TextNode ''i1'' ''list-item'' ''one'' (Some 3),
              TextNode ''i2'' ''list-item'' ''two'' (Some 1)],
      ops = []\<rparr>"

text \<open>A text node "hello world" alone in the document.\<close>

definition helloWorldOnly :: document where
  "helloWorldOnly = \<lparr>data = [TextNode ''t1'' ''paragraph'' ''hello world'' None], ops = []\<rparr>"

text \<open>
  What the transfer does to one node, for stating results: \<open>moved\<close> rebases an annotation
  anchored at or after the offset, \<open>rebase\<close> does so for the annotations on one path and
  leaves every other node as it is.
\<close>

definition moved :: "int \<Rightarrow> path \<Rightarrow> int \<Rightarrow> node \<Rightarrow> node" where
  "moved off np no n =
     (case n of
        Annotation i t s e il ax \<Rightarrow>
          (if offset s \<ge> off
           then Annotation i t \<lparr>path = np, offset = no + offset s - off\<rparr>
                  \<lparr>path = np, offset = no + offset e - off\<rparr> il ax
           else n)
      | _ \<Rightarrow> n)"

definition rebase :: "path \<Rightarrow> int \<Rightarrow> path \<Rightarrow> int \<Rightarrow> node \<Rightarrow> node" where
  "rebase p off newPath newOffset n =
     (case n of
        Annotation i t s e il ax \<Rightarrow>
          (if path s = p \<and> offset s \<ge> off
           then Annotation i t \<lparr>path = newPath, offset = newOffset + offset s - off\<rparr>
                  \<lparr>path = newPath, offset = newOffset + offset e - off\<rparr> il ax
           else n)
      | _ \<Rightarrow> n)"

text \<open>A heading "hello world" with one annotation on \<open>[0,5)\<close> and one on \<open>[6,11)\<close>.\<close>

definition splitDoc :: document where
  "splitDoc =
     \<lparr>data = [TextNode ''t1'' ''heading'' ''hello world'' (Some 2),
              Annotation ''a1'' ''strong'' \<lparr>path = [''t1'', ''content''], offset = 0\<rparr>
                \<lparr>path = [''t1'', ''content''], offset = 5\<rparr> False False,
              Annotation ''a2'' ''emphasis'' \<lparr>path = [''t1'', ''content''], offset = 6\<rparr>
                \<lparr>path = [''t1'', ''content''], offset = 11\<rparr> False False],
      ops = []\<rparr>"

text \<open>A body holding the paragraph "foo" and an image.\<close>

definition fooImgDoc :: document where
  "fooImgDoc =
     \<lparr>data = [ContainerNode ''body'' ''container'' [''p1'', ''img1''],
              TextNode ''p1'' ''paragraph'' ''foo'' None,
              OtherNode ''img1'' ''image''],
      ops = []\<rparr>"

text \<open>A body holding an image and an empty paragraph.\<close>

definition imageDoc :: document where
  "imageDoc =
     \<lparr>data = [ContainerNode ''body'' ''container'' [''img1'', ''p1''],
              OtherNode ''img1'' ''image'',
              TextNode ''p1'' ''paragraph'' [] None],
      ops = []\<rparr>"







section \<open>Theorems about the transaction\<close>

text \<open>
  C8. Entering \<open>_recordChange\<close> while \<open>_isTransacting\<close> is true raises
  "Nested transactions are not supported." at once: whatever the transformation and the
  selection, the transaction is returned as it was, so no operation is recorded.
\<close>

theorem recordChange_nested:
  assumes "isTransacting t"
  shows "recordChange transformation sel t
           = (Inl (Error ''Nested transactions are not supported.''), t)"
  using assms by (simp add: recordChange_def)

theorem recordChange_nested_witness:
  "isTransacting ((Transaction \<lparr>data = [], ops = []\<rparr>)\<lparr>isTransacting := True\<rparr>) \<and>
   recordChange (Some createThenThrow) NullSelection
       ((Transaction \<lparr>data = [], ops = []\<rparr>)\<lparr>isTransacting := True\<rparr>)
     = (Inl (Error ''Nested transactions are not supported.''),
        (Transaction \<lparr>data = [], ops = []\<rparr>)\<lparr>isTransacting := True\<rparr>)"
  using recordChange_nested [of "(Transaction \<lparr>data = [], ops = []\<rparr>)\<lparr>isTransacting := True\<rparr>"
      "Some createThenThrow" NullSelection]
  by simp

text \<open>
  C1. On a transaction as the constructor builds it, a transformation that creates a node
  and then throws leaves the node in the stage and the operation in the list: the
  rollback itself throws a TypeError (it reads the unassigned \<open>_stage\<close>), nothing is
  undone, and \<open>_isTransacting\<close> stays true.
\<close>

theorem recordChange_rollback_fails:
  "recordChange (Some createThenThrow) NullSelection (Transaction \<lparr>data = [], ops = []\<rparr>)
     = (Inl (TypeError ''Cannot read property _ops of undefined''),
        \<lparr>master = \<lparr>data = [], ops = []\<rparr>,
         stage = \<lparr>data = [TextNode ''p1'' ''paragraph'' ''abc'' None],
                  ops = [Create (TextNode ''p1'' ''paragraph'' ''abc'' None)]\<rparr>,
         us_stage = None, isTransacting = True, txSelection = NullSelection\<rparr>)"
  by (simp add: recordChange_def Transaction_def newInstance_def reset_def setSelection_def
      createThenThrow_def tx_create_def tx_get_def record_op_def rollback_def)

section \<open>Theorems about NodeEditing\<close>

lemma updateAnnotation_collapsed:
  "updateAnnotation coor coor text False = shiftCollapsed coor text"
  by (auto simp: updateAnnotation_def shiftCollapsed_def fun_eq_iff split: node.splits)

text \<open>
  C2. In the scenario "hello world" with an annotation on \<open>[0,5)\<close> that is no inline
  node and does not expand to the right, \<open>replaceText\<close> from 5 to 6 with "-" gives the
  text "hello-world", but the annotation ends at 6 afterwards. The annotation ends
  where the range starts; the branch that skips such an annotation comes after the
  branch for an annotation that starts before the range and ends below its end, and
  is not reached. \<open>insertText\<close> at offset 5 of the same document, where it is reached,
  leaves the annotation on \<open>[0,5)\<close>.
\<close>

theorem replaceText_hello_world:
  "replaceText (helloDoc False False) helloNode
      \<lparr>path = [''t1'', ''content''], offset = 5\<rparr> \<lparr>path = [''t1'', ''content''], offset = 6\<rparr> ''-''
     = Inr (PropertySelection \<lparr>path = [''t1'', ''content''], offset = 6\<rparr>
              \<lparr>path = [''t1'', ''content''], offset = 6\<rparr> None,
            \<lparr>data = [TextNode ''t1'' ''paragraph'' ''hello-world'' None,
                     Annotation ''a1'' ''strong'' \<lparr>path = [''t1'', ''content''], offset = 0\<rparr>
                       \<lparr>path = [''t1'', ''content''], offset = 6\<rparr> False False],
             ops = [Update [''t1'', ''content''] (TextDelete 5 '' ''),
                    Update [''t1'', ''content''] (TextInsert 5 ''-''),
                    Update [''a1'', ''end''] (Shift 1)]\<rparr>) \<and>
   insertText (helloDoc False False) helloNode \<lparr>path = [''t1'', ''content''], offset = 5\<rparr> ''-''
     = Inr (PropertySelection \<lparr>path = [''t1'', ''content''], offset = 6\<rparr>
              \<lparr>path = [''t1'', ''content''], offset = 6\<rparr> None,
            \<lparr>data = [TextNode ''t1'' ''paragraph'' ''hello- world'' None,
                     Annotation ''a1'' ''strong'' \<lparr>path = [''t1'', ''content''], offset = 0\<rparr>
                       \<lparr>path = [''t1'', ''content''], offset = 5\<rparr> False False],
             ops = [Update [''t1'', ''content''] (TextInsert 5 ''-'')]\<rparr>)"
  by (simp add: insertText_def replaceText_def helloDoc_def helloNode_def andThen_def tx_update_def
      tx_get_def make_diff_def substring_def record_op_def mapNode_def apply_diff_def
      getAnnotations_def updateAnnotation_def createSelection_def getProperty_def)

text \<open>
  C10. \<open>insertText\<close> at a coordinate is \<open>replaceText\<close> with that coordinate as both
  bounds: same result, same document. In that call nothing is deleted (the first
  operation is the insertion), typeover is false, and every annotation on the path is
  treated by the rules for a collapsed range.
\<close>

theorem insertText_is_collapsed_replaceText:
  "insertText tx node coor text = replaceText tx node coor coor text \<and>
   replaceText tx node coor coor text =
     andThen (tx_update (path coor) (InsertText (offset coor) text) tx)
       (\<lambda>tx2. andThen (forEach (shiftCollapsed coor text) (getAnnotations tx2 (path coor)) tx2)
       (\<lambda>tx3. andThen (createSelection tx3 (path coor) (offset coor + int (length text)) None)
       (\<lambda>sel. Inr (sel, tx3))))"
  by (simp add: insertText_def replaceText_def andThen_def updateAnnotation_collapsed)

theorem insertText_is_collapsed_replaceText_witness:
  "insertText (helloDoc False True) helloNode \<lparr>path = [''t1'', ''content''], offset = 5\<rparr> ''-''
     = replaceText (helloDoc False True) helloNode \<lparr>path = [''t1'', ''content''], offset = 5\<rparr>
         \<lparr>path = [''t1'', ''content''], offset = 5\<rparr> ''-'' \<and>
   ops (snd (projr (insertText (helloDoc False True) helloNode
         \<lparr>path = [''t1'', ''content''], offset = 5\<rparr> ''-'')))
     = [Update [''t1'', ''content''] (TextInsert 5 ''-''), Update [''a1'', ''end''] (Shift 1)]"
  using insertText_is_collapsed_replaceText [of "helloDoc False True" helloNode
      "\<lparr>path = [''t1'', ''content''], offset = 5\<rparr>" "''-''"]
  by (simp add: helloDoc_def helloNode_def andThen_def tx_update_def tx_get_def
      make_diff_def record_op_def mapNode_def apply_diff_def getAnnotations_def
      shiftCollapsed_def createSelection_def getProperty_def)

section \<open>Lookups after the primitive operations\<close>

lemma find_mapNode:
  assumes "\<And>n. node_id (f n) = node_id n"
  shows "find (\<lambda>n. node_id n = j) (mapNode i f ns)
           = (if i = j then map_option f (find (\<lambda>n. node_id n = j) ns)
              else find (\<lambda>n. node_id n = j) ns)"
  using assms by (induction ns) (auto simp: mapNode_def)

lemma node_id_apply_set: "node_id (apply_set prop v n) = node_id n"
  by (cases n) (auto simp: apply_set_def split: val.splits)

lemma node_id_le_max:
  "n \<in> set ns \<Longrightarrow> length (node_id n) \<le> foldr (\<lambda>n m. max (length (node_id n)) m) ns 0"
  by (induction ns) auto

lemma uuid_fresh: "tx_get tx (uuid tx ty) = None"
proof -
  have "node_id n \<noteq> uuid tx ty" if "n \<in> set (data tx)" for n
  proof
    assume "node_id n = uuid tx ty"
    then have "length (node_id n) = length (uuid tx ty)" by simp
    with node_id_le_max[OF that] show False by (simp add: uuid_def)
  qed
  then show ?thesis by (auto simp: tx_get_def find_None_iff)
qed

lemma tx_get_node_id: "tx_get tx i = Some n \<Longrightarrow> node_id n = i"
  by (auto simp: tx_get_def find_Some_iff)

lemma find_app:
  "find P (xs @ ys) = (case find P xs of None \<Rightarrow> find P ys | Some x \<Rightarrow> Some x)"
  by (induction xs) auto

lemma tx_get_create:
  "tx_get (record_op (Create n) tx) j =
     (case tx_get tx j of Some m \<Rightarrow> Some m | None \<Rightarrow> if node_id n = j then Some n else None)"
  by (simp add: tx_get_def record_op_def find_app split: option.splits)

lemma find_distinct:
  "distinct (map node_id ns) \<Longrightarrow> n \<in> set ns \<Longrightarrow> find (\<lambda>m. node_id m = node_id n) ns = Some n"
  by (induction ns) (auto simp: rev_image_eqI)

lemma node_id_apply_diff: "node_id (apply_diff prop v n) = node_id n"
  by (cases n) (auto simp: apply_diff_def split: diff.splits)

lemma tx_get_set:
  "tx_get tx i = Some n \<Longrightarrow>
   \<exists>tx'. tx_set [i, prop] v tx = Inr tx' \<and>
     (\<forall>j. tx_get tx' j = (if j = i then Some (apply_set prop v n) else tx_get tx j))"
  by (auto simp: tx_set_def record_op_def tx_get_def
      find_mapNode[of "apply_set prop v", OF node_id_apply_set])

section \<open>Theorems about TextNodeEditing\<close>

text \<open>
  C7. On the text "hello world", \<open>deleteRange\<close> with no start bound and the end bound at
  offset 3 deletes "hel" from offset 0, as the default for an absent start says, but the
  cursor it returns is at offset 3, the end bound's offset: \<open>start = start || end\<close> takes
  the whole end coordinate, not only its path. With the start bound written out as
  offset 0 of the same path, the same text is deleted and the cursor is at offset 0.
\<close>

theorem TextNodeEditing_deleteRange_null_start:
  "TextNodeEditing_deleteRange noAdjust helloWorldOnly (TextNode ''t1'' ''paragraph'' ''hello world'' None)
      None (Some \<lparr>path = [''t1'', ''content''], offset = 3\<rparr>)
     = Inr (Some (PropertySelection \<lparr>path = [''t1'', ''content''], offset = 3\<rparr>
                    \<lparr>path = [''t1'', ''content''], offset = 3\<rparr> None),
            \<lparr>data = [TextNode ''t1'' ''paragraph'' ''lo world'' None],
             ops = [Update [''t1'', ''content''] (TextDelete 0 ''hel'')]\<rparr>) \<and>
   TextNodeEditing_deleteRange noAdjust helloWorldOnly (TextNode ''t1'' ''paragraph'' ''hello world'' None)
      (Some \<lparr>path = [''t1'', ''content''], offset = 0\<rparr>)
      (Some \<lparr>path = [''t1'', ''content''], offset = 3\<rparr>)
     = Inr (Some (PropertySelection \<lparr>path = [''t1'', ''content''], offset = 0\<rparr>
                    \<lparr>path = [''t1'', ''content''], offset = 0\<rparr> None),
            \<lparr>data = [TextNode ''t1'' ''paragraph'' ''lo world'' None],
             ops = [Update [''t1'', ''content''] (TextDelete 0 ''hel'')]\<rparr>)"
  by (simp add: TextNodeEditing_deleteRange_def firstOf_def getNodeId_def deleteTextRange_def
      getProperty_def helloWorldOnly_def tx_get_def andThen_def tx_update_def make_diff_def
      substring_def record_op_def mapNode_def apply_diff_def noAdjust_def createSelection_def)

section \<open>Theorems about indent and dedent\<close>

lemma tx_set_level:
  assumes "tx_get tx i = Some (TextNode i t c l)"
  shows "\<exists>tx'. tx_set [i, ''level''] (IntVal k) tx = Inr tx' \<and>
               tx_get tx' i = Some (TextNode i t c (Some k))"
  using assms
  by (auto simp: tx_set_def record_op_def tx_get_def apply_set_def
      find_mapNode[of "apply_set ''level'' (IntVal k)", OF node_id_apply_set])

lemma indent_step:
  assumes "tx_get tx i = Some (TextNode i t c (Some l))" and "getNodeId start = Some i"
  shows "\<exists>tx'. indent root (PropertySelection start endc cid) tx = Inr tx' \<and>
           tx_get tx' i = Some (TextNode i t c
             (Some (if isList (root tx (TextNode i t c (Some l))) \<and> l < 3 then l + 1 else l))) \<and>
           (\<not> (isList (root tx (TextNode i t c (Some l))) \<and> l < 3) \<longrightarrow> tx' = tx)"
  using assms tx_set_level[OF assms(1), of "l + 1"]
  by (auto simp: indent_def level_def)

lemma dedent_step:
  assumes "tx_get tx i = Some (TextNode i t c (Some l))" and "getNodeId start = Some i"
  shows "\<exists>tx'. dedent root (PropertySelection start endc cid) tx = Inr tx' \<and>
           tx_get tx' i = Some (TextNode i t c
             (Some (if isList (root tx (TextNode i t c (Some l))) \<and> l > 1 then l - 1 else l))) \<and>
           (\<not> (isList (root tx (TextNode i t c (Some l))) \<and> l > 1) \<longrightarrow> tx' = tx)"
  using assms tx_set_level[OF assms(1), of "l - 1"]
  by (auto simp: dedent_def level_def)

lemma run_level:
  assumes "tx_get tx i = Some (TextNode i t c (Some l))" and "getNodeId start = Some i"
    and "1 \<le> l" and "l \<le> 3"
  shows "\<exists>tx' l'. run root (PropertySelection start endc cid) cs tx = Inr tx' \<and>
           tx_get tx' i = Some (TextNode i t c (Some l')) \<and> 1 \<le> l' \<and> l' \<le> 3"
  using assms
proof (induction cs arbitrary: tx l)
  case Nil
  then show ?case by simp
next
  case (Cons cmd cs)
  show ?case
  proof (cases cmd)
    case Indent
    from indent_step[OF Cons.prems(1,2), of root endc cid]
    obtain tx1 l1 where s: "indent root (PropertySelection start endc cid) tx = Inr tx1"
      and g: "tx_get tx1 i = Some (TextNode i t c (Some l1))"
      and l1: "l1 = (if isList (root tx (TextNode i t c (Some l))) \<and> l < 3 then l + 1 else l)"
      by blast
    from l1 Cons.prems(3,4) have "1 \<le> l1" "l1 \<le> 3" by (auto split: if_splits)
    from Cons.IH[OF g Cons.prems(2) this] show ?thesis
      using s Indent by (simp add: andThen_def)
  next
    case Dedent
    from dedent_step[OF Cons.prems(1,2), of root endc cid]
    obtain tx1 l1 where s: "dedent root (PropertySelection start endc cid) tx = Inr tx1"
      and g: "tx_get tx1 i = Some (TextNode i t c (Some l1))"
      and l1: "l1 = (if isList (root tx (TextNode i t c (Some l))) \<and> l > 1 then l - 1 else l)"
      by blast
    from l1 Cons.prems(3,4) have "1 \<le> l1" "l1 \<le> 3" by (auto split: if_splits)
    from Cons.IH[OF g Cons.prems(2) this] show ?thesis
      using s Dedent by (simp add: andThen_def)
  qed
qed

text \<open>
  C9. For a list item (a node whose root is a list) with a level in \<open>[1,3]\<close> under a
  property selection on it: \<open>indent\<close> raises the level by one only below 3, \<open>dedent\<close>
  lowers it by one only above 1; when the root is not a list, and on any selection that
  is not a property selection, both leave the document as it is; and after any sequence
  of the two, whatever the roots are, the level is still in \<open>[1,3]\<close>.
\<close>

theorem indent_dedent_clamp:
  assumes "tx_get tx i = Some (TextNode i t c (Some l))" and "getNodeId start = Some i"
    and "1 \<le> l" and "l \<le> 3"
  shows "(isList (root tx (TextNode i t c (Some l))) \<longrightarrow>
            (\<exists>tx'. indent root (PropertySelection start endc cid) tx = Inr tx' \<and>
                   levelOf tx' i = Some (if l < 3 then l + 1 else l)) \<and>
            (\<exists>tx'. dedent root (PropertySelection start endc cid) tx = Inr tx' \<and>
                   levelOf tx' i = Some (if l > 1 then l - 1 else l))) \<and>
         (\<not> isList (root tx (TextNode i t c (Some l))) \<longrightarrow>
            indent root (PropertySelection start endc cid) tx = Inr tx \<and>
            dedent root (PropertySelection start endc cid) tx = Inr tx) \<and>
         (\<not> isPropertySelection sel \<longrightarrow> indent root sel tx = Inr tx \<and> dedent root sel tx = Inr tx) \<and>
         (\<exists>tx' l'. run root (PropertySelection start endc cid) cs tx = Inr tx' \<and>
                   levelOf tx' i = Some l' \<and> 1 \<le> l' \<and> l' \<le> 3)"
proof (intro conjI impI)
  assume r: "isList (root tx (TextNode i t c (Some l)))"
  from indent_step[OF assms(1,2), of root endc cid] r
  show "\<exists>tx'. indent root (PropertySelection start endc cid) tx = Inr tx' \<and>
              levelOf tx' i = Some (if l < 3 then l + 1 else l)"
    by (auto simp: levelOf_def level_def)
  from dedent_step[OF assms(1,2), of root endc cid] r
  show "\<exists>tx'. dedent root (PropertySelection start endc cid) tx = Inr tx' \<and>
              levelOf tx' i = Some (if l > 1 then l - 1 else l)"
    by (auto simp: levelOf_def level_def)
next
  assume r: "\<not> isList (root tx (TextNode i t c (Some l)))"
  from indent_step[OF assms(1,2), of root endc cid] r
  show "indent root (PropertySelection start endc cid) tx = Inr tx" by auto
  from dedent_step[OF assms(1,2), of root endc cid] r
  show "dedent root (PropertySelection start endc cid) tx = Inr tx" by auto
next
  assume "\<not> isPropertySelection sel"
  then show "indent root sel tx = Inr tx" "dedent root sel tx = Inr tx"
    by (auto simp: isPropertySelection_def indent_def dedent_def split: selection.splits)
next
  from run_level[OF assms, of root endc cid cs]
  show "\<exists>tx' l'. run root (PropertySelection start endc cid) cs tx = Inr tx' \<and>
                 levelOf tx' i = Some l' \<and> 1 \<le> l' \<and> l' \<le> 3"
    by (auto simp: levelOf_def level_def)
qed

theorem indent_dedent_clamp_witness:
  "tx_get listDoc ''i1'' = Some (TextNode ''i1'' ''list-item'' ''one'' (Some 3)) \<and>
   getNodeId \<lparr>path = [''i1'', ''content''], offset = 0\<rparr> = Some ''i1'' \<and>
   isList (listRoot listDoc (TextNode ''i1'' ''list-item'' ''one'' (Some 3))) \<and>
   levelOf (projr (indent listRoot
      (PropertySelection \<lparr>path = [''i1'', ''content''], offset = 0\<rparr>
         \<lparr>path = [''i1'', ''content''], offset = 0\<rparr> None) listDoc)) ''i1'' = Some 3 \<and>
   levelOf (projr (dedent listRoot
      (PropertySelection \<lparr>path = [''i1'', ''content''], offset = 0\<rparr>
         \<lparr>path = [''i1'', ''content''], offset = 0\<rparr> None) listDoc)) ''i1'' = Some 2 \<and>
   levelOf (projr (run listRoot
      (PropertySelection \<lparr>path = [''i1'', ''content''], offset = 0\<rparr>
         \<lparr>path = [''i1'', ''content''], offset = 0\<rparr> None)
      [Dedent, Dedent, Dedent, Indent] listDoc)) ''i1'' = Some 2"
  using indent_dedent_clamp [of listDoc "''i1''" "''list-item''" "''one''" 3
      "\<lparr>path = [''i1'', ''content''], offset = 0\<rparr>" listRoot
      "\<lparr>path = [''i1'', ''content''], offset = 0\<rparr>" None NullSelection
      "[Dedent, Dedent, Dedent, Indent]"]
  by (simp add: listDoc_def tx_get_def getNodeId_def isList_def listRoot_def
      indent_def dedent_def level_def levelOf_def tx_set_def record_op_def mapNode_def
      apply_set_def old_val_def andThen_def)

section \<open>Theorems about splitNode\<close>

lemma node_id_moved: "node_id (moved off np no n) = node_id n"
  by (cases n) (auto simp: moved_def)

lemma transferAnnotation_get:
  assumes "tx_get tx (node_id a) = Some a"
  shows "\<exists>tx'. transferAnnotation off np no a tx = Inr tx' \<and>
     (\<forall>j. tx_get tx' j = (if j = node_id a then Some (moved off np no a) else tx_get tx j))"
proof (cases a)
  case (Annotation i t s e il ax)
  show ?thesis
  proof (cases "offset s \<ge> off")
    case True
    from assms Annotation have g: "tx_get tx i = Some (Annotation i t s e il ax)" by simp
    from tx_get_set[OF g, of "''start''" "CoorVal \<lparr>path = np, offset = no + offset s - off\<rparr>"]
    obtain tx1 where s1: "tx_set [i, ''start''] (CoorVal \<lparr>path = np, offset = no + offset s - off\<rparr>) tx = Inr tx1"
      and g1: "\<forall>j. tx_get tx1 j = (if j = i then Some (apply_set ''start'' (CoorVal \<lparr>path = np, offset = no + offset s - off\<rparr>) (Annotation i t s e il ax)) else tx_get tx j)"
      by blast
    from g1 have g1i: "tx_get tx1 i = Some (Annotation i t \<lparr>path = np, offset = no + offset s - off\<rparr> e il ax)"
      by (simp add: apply_set_def)
    from tx_get_set[OF g1i, of "''end''" "CoorVal \<lparr>path = np, offset = no + offset e - off\<rparr>"]
    obtain tx2 where s2: "tx_set [i, ''end''] (CoorVal \<lparr>path = np, offset = no + offset e - off\<rparr>) tx1 = Inr tx2"
      and g2: "\<forall>j. tx_get tx2 j = (if j = i then Some (apply_set ''end'' (CoorVal \<lparr>path = np, offset = no + offset e - off\<rparr>) (Annotation i t \<lparr>path = np, offset = no + offset s - off\<rparr> e il ax)) else tx_get tx1 j)"
      by blast
    have "transferAnnotation off np no a tx = Inr tx2"
      using True Annotation s1 s2 by (simp add: transferAnnotation_def andThen_def)
    moreover have "\<forall>j. tx_get tx2 j = (if j = node_id a then Some (moved off np no a) else tx_get tx j)"
      using g1 g2 True Annotation by (simp add: moved_def apply_set_def)
    ultimately show ?thesis by blast
  next
    case False
    then show ?thesis using assms Annotation
      by (auto simp: transferAnnotation_def moved_def)
  qed
qed (use assms in \<open>auto simp: transferAnnotation_def moved_def\<close>)

lemma forEach_transfer:
  assumes "\<forall>a \<in> set as. tx_get tx (node_id a) = Some a" and "distinct (map node_id as)"
  shows "\<exists>tx'. forEach (transferAnnotation off np no) as tx = Inr tx' \<and>
     (\<forall>j. tx_get tx' j = map_option (\<lambda>n. if n \<in> set as then moved off np no n else n) (tx_get tx j))"
  using assms
proof (induction as arbitrary: tx)
  case Nil
  then show ?case by (simp add: option.map_ident)
next
  case (Cons a as)
  from Cons.prems have ga: "tx_get tx (node_id a) = Some a" by simp
  from transferAnnotation_get[OF ga, of off np no]
  obtain tx1 where s1: "transferAnnotation off np no a tx = Inr tx1"
    and g1: "\<forall>j. tx_get tx1 j = (if j = node_id a then Some (moved off np no a) else tx_get tx j)"
    by blast
  have "node_id a \<notin> node_id ` set as" using Cons.prems(2) by simp
  then have ida: "\<forall>b \<in> set as. node_id b \<noteq> node_id a" by (metis imageI)
  have p1: "\<forall>b \<in> set as. tx_get tx1 (node_id b) = Some b"
    using Cons.prems(1) ida g1 by simp
  from Cons.IH[OF p1] Cons.prems(2)
  obtain tx2 where s2: "forEach (transferAnnotation off np no) as tx1 = Inr tx2"
    and g2: "\<forall>j. tx_get tx2 j = map_option (\<lambda>n. if n \<in> set as then moved off np no n else n) (tx_get tx1 j)"
    by auto
  have "forEach (transferAnnotation off np no) (a # as) tx = Inr tx2"
    using s1 s2 by (simp add: andThen_def)
  moreover have "tx_get tx2 j = map_option (\<lambda>n. if n \<in> set (a # as) then moved off np no n else n) (tx_get tx j)" for j
  proof (cases "j = node_id a")
    case True
    have "moved off np no a \<notin> set as"
      using ida node_id_moved[of off np no a] by metis
    then show ?thesis using True g1 g2 ga by simp
  next
    case False
    show ?thesis
    proof (cases "tx_get tx j")
      case None
      then show ?thesis using False g1 g2 by simp
    next
      case (Some n)
      then have "n \<noteq> a" using False tx_get_node_id by blast
      then show ?thesis using False g1 g2 Some by simp
    qed
  qed
  ultimately show ?case by blast
qed


lemma rebase_moved:
  "rebase p off np no n =
     (if (case n of Annotation i t s e il ax \<Rightarrow> path s = p | _ \<Rightarrow> False) then moved off np no n else n)"
  by (cases n) (auto simp: rebase_def moved_def)

lemma tx_get_update:
  assumes "tx_get tx i = Some n" and "make_diff prop sp n = Some df"
  shows "\<exists>tx'. tx_update [i, prop] sp tx = Inr tx' \<and>
     (\<forall>j. tx_get tx' j = (if j = i then Some (apply_diff prop df n) else tx_get tx j))"
  using assms
  by (auto simp: tx_update_def record_op_def tx_get_def
      find_mapNode[of "apply_diff prop df", OF node_id_apply_diff])

lemma tx_get_in_data: "tx_get tx j = Some n \<Longrightarrow> n \<in> set (data tx)"
  by (auto simp: tx_get_def find_Some_iff)

lemma tx_get_member:
  "distinct (map node_id (data tx)) \<Longrightarrow> n \<in> set (data tx) \<Longrightarrow> tx_get tx (node_id n) = Some n"
  by (simp add: tx_get_def find_distinct)

lemma split_at_zero:
  "TextNodeEditing_splitNode dtt tx node \<lparr>path = p, offset = 0\<rparr>
     = Inr (\<lparr>before = Some (TextNode (uuid tx (node_type node)) (node_type node) [] None),
             after = None, replace = None, selection = None\<rparr>,
            record_op (Create (TextNode (uuid tx (node_type node)) (node_type node) [] None)) tx)"
  by (simp add: TextNodeEditing_splitNode_def createText_def tx_create_def uuid_fresh andThen_def)

lemma split_after:
  assumes wf: "distinct (map node_id (data tx))"
    and node: "tx_get tx i = Some (TextNode i t c l)"
    and k: "0 < k" "k \<le> int (length c)"
    and ty: "ty = (if k = int (length c) then dtt else t)"
    and u: "u = uuid tx ty"
  shows "\<exists>tx'. TextNodeEditing_splitNode dtt tx (TextNode i t c l) \<lparr>path = [i, ''content''], offset = k\<rparr>
             = Inr (\<lparr>before = None, after = Some (TextNode u ty (drop (nat k) c) l),
                     replace = None, selection = None\<rparr>, tx') \<and>
           tx_get tx' u = Some (TextNode u ty (drop (nat k) c) l) \<and>
           tx_get tx' i = Some (TextNode i t (take (nat k) c) l) \<and>
           (\<forall>j. j \<noteq> i \<and> j \<noteq> u \<longrightarrow>
                tx_get tx' j = map_option (rebase [i, ''content''] k [u, ''content''] 0) (tx_get tx j))"
proof -
  let ?p = "[i, ''content'']"
  let ?new = "TextNode u ty (drop (nat k) c) l"
  let ?tx1 = "record_op (Create ?new) tx"
  let ?as = "getAnnotations ?tx1 ?p"
  have fresh: "tx_get tx u = None" using u by (simp add: uuid_fresh)
  then have ui: "u \<noteq> i" using node by auto
  have g1: "tx_get ?tx1 j = (case tx_get tx j of Some m \<Rightarrow> Some m | None \<Rightarrow> if u = j then Some ?new else None)" for j
    by (simp add: tx_get_create)
  have as: "?as = filter (\<lambda>n. case n of Annotation i t s e il ax \<Rightarrow> path s = ?p | _ \<Rightarrow> False) (data tx)"
    by (simp add: getAnnotations_def record_op_def)
  have as_in: "\<forall>a \<in> set ?as. tx_get ?tx1 (node_id a) = Some a"
    using tx_get_member[OF wf] by (auto simp: as g1)
  have as_d: "distinct (map node_id ?as)"
    unfolding as using wf by (simp add: distinct_map_filter)
  from forEach_transfer[OF as_in as_d, of k "[u, ''content'']" 0]
  obtain tx2 where s2: "forEach (transferAnnotation k [u, ''content''] 0) ?as ?tx1 = Inr tx2"
    and g2: "\<forall>j. tx_get tx2 j = map_option (\<lambda>n. if n \<in> set ?as then moved k [u, ''content''] 0 n else n) (tx_get ?tx1 j)"
    by blast
  have g2i: "tx_get tx2 i = Some (TextNode i t c l)"
    using g2 g1[of i] node by (simp add: moved_def)
  have md: "make_diff ''content'' (DeleteText k (int (length c))) (TextNode i t c l)
              = Some (TextDelete k (substring c k (int (length c))))"
    using k by (simp add: make_diff_def)
  from tx_get_update[OF g2i md]
  obtain tx3 where s3: "tx_update ?p (DeleteText k (int (length c))) tx2 = Inr tx3"
    and g3: "\<forall>j. tx_get tx3 j = (if j = i then Some (apply_diff ''content'' (TextDelete k (substring c k (int (length c)))) (TextNode i t c l)) else tx_get tx2 j)"
    by blast
  have trunc: "apply_diff ''content'' (TextDelete k (substring c k (int (length c)))) (TextNode i t c l)
                 = TextNode i t (take (nat k) c) l"
    using k by (simp add: apply_diff_def substring_def)
  have run: "TextNodeEditing_splitNode dtt tx (TextNode i t c l) \<lparr>path = ?p, offset = k\<rparr>
      = Inr (\<lparr>before = None, after = Some ?new, replace = None, selection = None\<rparr>, tx3)"
    using k node fresh s2 s3 ty u
    by (simp add: TextNodeEditing_splitNode_def getProperty_def live_def createText_def
        tx_create_def andThen_def transferAnnotations_def getPath_def)
  have new: "tx_get tx3 u = Some ?new"
    using g3 g2 g1[of u] fresh ui by (simp add: moved_def)
  have rest: "tx_get tx3 j = map_option (rebase ?p k [u, ''content''] 0) (tx_get tx j)"
    if "j \<noteq> i \<and> j \<noteq> u" for j
  proof (cases "tx_get tx j")
    case None
    then show ?thesis using that g3 g2 g1[of j] by auto
  next
    case (Some n)
    then have "n \<in> set (data tx)" by (rule tx_get_in_data)
    then have "n \<in> set ?as \<longleftrightarrow> (case n of Annotation i t s e il ax \<Rightarrow> path s = ?p | _ \<Rightarrow> False)"
      by (simp add: as)
    then show ?thesis using that g3 g2 g1[of j] Some by (auto simp: rebase_moved)
  qed
  show ?thesis using run new rest g3 trunc by auto
qed

text \<open>
  C5. For a text node of a document with distinct ids and a coordinate on its content:
  at offset 0 \<open>splitNode\<close> creates an empty node of the node's type and returns it as
  \<open>before\<close>, changing nothing else; at an offset \<open>k\<close> with \<open>0 < k \<le> length\<close> it returns
  as \<open>after\<close> a new node that holds the text from \<open>k\<close> on, of the default text type when
  \<open>k\<close> is the length and of the node's type otherwise; afterwards the node's text is
  the prefix before \<open>k\<close>, every annotation on the content anchored at or after \<open>k\<close> is
  on the new node with its offsets lowered by \<open>k\<close>, and every other node is as before.
\<close>

theorem TextNodeEditing_splitNode_correct:
  assumes "distinct (map node_id (data tx))" and "tx_get tx i = Some (TextNode i t c l)"
  shows "TextNodeEditing_splitNode dtt tx (TextNode i t c l) \<lparr>path = [i, ''content''], offset = 0\<rparr>
           = Inr (\<lparr>before = Some (TextNode (uuid tx t) t [] None), after = None, replace = None,
                   selection = None\<rparr>,
                  record_op (Create (TextNode (uuid tx t) t [] None)) tx) \<and>
         (0 < k \<and> k \<le> int (length c) \<longrightarrow>
           (let ty = (if k = int (length c) then dtt else t); u = uuid tx ty in
            \<exists>tx'. TextNodeEditing_splitNode dtt tx (TextNode i t c l) \<lparr>path = [i, ''content''], offset = k\<rparr>
                     = Inr (\<lparr>before = None, after = Some (TextNode u ty (drop (nat k) c) l),
                             replace = None, selection = None\<rparr>, tx') \<and>
                  tx_get tx' u = Some (TextNode u ty (drop (nat k) c) l) \<and>
                  tx_get tx' i = Some (TextNode i t (take (nat k) c) l) \<and>
                  (\<forall>j. j \<noteq> i \<and> j \<noteq> u \<longrightarrow>
                       tx_get tx' j = map_option (rebase [i, ''content''] k [u, ''content''] 0) (tx_get tx j))))"
proof (intro conjI impI)
  show "TextNodeEditing_splitNode dtt tx (TextNode i t c l) \<lparr>path = [i, ''content''], offset = 0\<rparr>
           = Inr (\<lparr>before = Some (TextNode (uuid tx t) t [] None), after = None, replace = None,
                   selection = None\<rparr>,
                  record_op (Create (TextNode (uuid tx t) t [] None)) tx)"
    using split_at_zero[of dtt tx "TextNode i t c l" "[i, ''content'']"] by simp
next
  assume k: "0 < k \<and> k \<le> int (length c)"
  then have k1: "0 < k" and k2: "k \<le> int (length c)" by simp_all
  show "let ty = (if k = int (length c) then dtt else t); u = uuid tx ty in
            \<exists>tx'. TextNodeEditing_splitNode dtt tx (TextNode i t c l) \<lparr>path = [i, ''content''], offset = k\<rparr>
                     = Inr (\<lparr>before = None, after = Some (TextNode u ty (drop (nat k) c) l),
                             replace = None, selection = None\<rparr>, tx') \<and>
                  tx_get tx' u = Some (TextNode u ty (drop (nat k) c) l) \<and>
                  tx_get tx' i = Some (TextNode i t (take (nat k) c) l) \<and>
                  (\<forall>j. j \<noteq> i \<and> j \<noteq> u \<longrightarrow>
                       tx_get tx' j = map_option (rebase [i, ''content''] k [u, ''content''] 0) (tx_get tx j))"
    unfolding Let_def by (rule split_after[OF assms k1 k2 refl refl])
qed

theorem TextNodeEditing_splitNode_correct_witness:
  "distinct (map node_id (data splitDoc)) \<and>
   tx_get splitDoc ''t1'' = Some (TextNode ''t1'' ''heading'' ''hello world'' (Some 2)) \<and>
   (0::int) < 6 \<and> (6::int) \<le> int (length ''hello world'') \<and>
   TextNodeEditing_splitNode ''paragraph'' splitDoc (TextNode ''t1'' ''heading'' ''hello world'' (Some 2))
       \<lparr>path = [''t1'', ''content''], offset = 6\<rparr>
     = Inr (\<lparr>before = None, after = Some (TextNode ''heading_xxx'' ''heading'' ''world'' (Some 2)),
             replace = None, selection = None\<rparr>,
            \<lparr>data = [TextNode ''t1'' ''heading'' ''hello '' (Some 2),
                     Annotation ''a1'' ''strong'' \<lparr>path = [''t1'', ''content''], offset = 0\<rparr>
                       \<lparr>path = [''t1'', ''content''], offset = 5\<rparr> False False,
                     Annotation ''a2'' ''emphasis'' \<lparr>path = [''heading_xxx'', ''content''], offset = 0\<rparr>
                       \<lparr>path = [''heading_xxx'', ''content''], offset = 5\<rparr> False False,
                     TextNode ''heading_xxx'' ''heading'' ''world'' (Some 2)],
             ops = [Create (TextNode ''heading_xxx'' ''heading'' ''world'' (Some 2)),
                    SetOp [''a2'', ''start''] (CoorVal \<lparr>path = [''heading_xxx'', ''content''], offset = 0\<rparr>)
                      (CoorVal \<lparr>path = [''t1'', ''content''], offset = 6\<rparr>),
                    SetOp [''a2'', ''end''] (CoorVal \<lparr>path = [''heading_xxx'', ''content''], offset = 5\<rparr>)
                      (CoorVal \<lparr>path = [''t1'', ''content''], offset = 11\<rparr>),
                    Update [''t1'', ''content''] (TextDelete 6 ''world'')]\<rparr>)"
  using TextNodeEditing_splitNode_correct [of splitDoc "''t1''" "''heading''" "''hello world''"
      "Some 2" "''paragraph''" 6]
  by (simp add: splitDoc_def tx_get_def TextNodeEditing_splitNode_def getProperty_def live_def
      createText_def uuid_def tx_create_def record_op_def andThen_def transferAnnotations_def
      transferAnnotation_def getAnnotations_def getPath_def tx_set_def old_val_def mapNode_def
      apply_set_def tx_update_def make_diff_def substring_def apply_diff_def)

section \<open>Theorems about ContainerEditing\<close>

lemma indexOf_bounds: "x \<in> set ns \<Longrightarrow> 0 \<le> indexOf ns x \<and> indexOf ns x < int (length ns)"
  by (induction ns) auto

lemma indexOf_nth: "x \<in> set ns \<Longrightarrow> ns ! nat (indexOf ns x) = x"
proof (induction ns)
  case Nil
  then show ?case by simp
next
  case (Cons y ys)
  show ?case
  proof (cases "y = x")
    case True
    then show ?thesis by simp
  next
    case False
    with Cons.prems have m: "x \<in> set ys" by simp
    from indexOf_bounds[OF m] have "nat (indexOf ys x + 1) = Suc (nat (indexOf ys x))" by arith
    with False m Cons.IH indexOf_bounds[OF m] show ?thesis by simp
  qed
qed

lemma removeAt_indexOf: "x \<in> set ns \<Longrightarrow> removeAt (indexOf ns x) ns = remove1 x ns"
proof (induction ns)
  case Nil
  then show ?case by simp
next
  case (Cons y ys)
  show ?case
  proof (cases "y = x")
    case True
    then show ?thesis by (simp add: removeAt_def)
  next
    case False
    with Cons.prems have m: "x \<in> set ys" by simp
    from indexOf_bounds[OF m] have "nat (indexOf ys x + 1) = Suc (nat (indexOf ys x))" by arith
    with False m Cons.IH indexOf_bounds[OF m] show ?thesis by (simp add: removeAt_def)
  qed
qed

lemma find_filter_ne:
  "find (\<lambda>n. node_id n = j) (filter (\<lambda>m. node_id m \<noteq> x) ns)
     = (if j = x then None else find (\<lambda>n. node_id n = j) ns)"
  by (induction ns) auto

lemma tx_get_delete:
  assumes "tx_get tx x = Some n"
  shows "\<exists>tx'. tx_delete x tx = Inr tx' \<and> ops tx' = ops tx @ [Delete n] \<and>
           (\<forall>j. tx_get tx' j = (if j = x then None else tx_get tx j))"
proof -
  from assms have "node_id n = x" by (rule tx_get_node_id)
  then show ?thesis using assms
    by (simp add: tx_delete_def record_op_def tx_get_def find_filter_ne)
qed

lemma tx_get_update_ops:
  assumes "tx_get tx i = Some n" and "make_diff prop sp n = Some df"
  shows "\<exists>tx'. tx_update [i, prop] sp tx = Inr tx' \<and> ops tx' = ops tx @ [Update [i, prop] df] \<and>
     (\<forall>j. tx_get tx' j = (if j = i then Some (apply_diff prop df n) else tx_get tx j))"
  using assms
  by (auto simp: tx_update_def record_op_def tx_get_def
      find_mapNode[of "apply_diff prop df", OF node_id_apply_diff])

text \<open>Hiding the child \<open>x\<close> of a container and deleting it.\<close>

lemma hide_then_delete:
  assumes c: "tx_get tx cid = Some (ContainerNode cid t ms)"
    and x: "tx_get tx x = Some n" "x \<in> set ms" "x \<noteq> cid"
    and r: "node_id (root tx n) = x"
  shows "\<exists>tx'. andThen (hide root tx (ContainerNode cid t ns0) x) (tx_delete x) = Inr tx' \<and>
           ops tx' = ops tx @ [Update [cid, ''nodes''] (ArrayDelete (indexOf ms x) x), Delete n] \<and>
           (\<forall>j. tx_get tx' j =
              (if j = x then None
               else if j = cid then Some (ContainerNode cid t (remove1 x ms))
               else tx_get tx j))"
proof -
  let ?k = "indexOf ms x"
  have pos: "getPosition root tx (ContainerNode cid t ns0) x = ?k"
    using c x r by (simp add: getPosition_def nodes_def live_def)
  have md: "make_diff ''nodes'' (DeleteValue ?k) (ContainerNode cid t ms) = Some (ArrayDelete ?k x)"
    using indexOf_bounds[OF x(2)] indexOf_nth[OF x(2)] by (simp add: make_diff_def)
  from tx_get_update_ops[OF c md]
  obtain tx1 where s1: "tx_update [cid, ''nodes''] (DeleteValue ?k) tx = Inr tx1"
    and o1: "ops tx1 = ops tx @ [Update [cid, ''nodes''] (ArrayDelete ?k x)]"
    and g1: "\<forall>j. tx_get tx1 j = (if j = cid then Some (apply_diff ''nodes'' (ArrayDelete ?k x) (ContainerNode cid t ms)) else tx_get tx j)"
    by blast
  have gx: "tx_get tx1 x = Some n" using g1 x by simp
  from tx_get_delete[OF gx]
  obtain tx2 where s2: "tx_delete x tx1 = Inr tx2" and o2: "ops tx2 = ops tx1 @ [Delete n]"
    and g2: "\<forall>j. tx_get tx2 j = (if j = x then None else tx_get tx1 j)"
    by blast
  have "andThen (hide root tx (ContainerNode cid t ns0) x) (tx_delete x) = Inr tx2"
    using pos s1 s2 by (simp add: hide_def hideAt_def getContentPath_def andThen_def)
  moreover have "ops tx2 = ops tx @ [Update [cid, ''nodes''] (ArrayDelete ?k x), Delete n]"
    using o1 o2 by simp
  moreover have "\<forall>j. tx_get tx2 j =
              (if j = x then None
               else if j = cid then Some (ContainerNode cid t (remove1 x ms))
               else tx_get tx j)"
    using g1 g2 removeAt_indexOf[OF x(2)] by (simp add: apply_diff_def)
  ultimately show ?thesis by blast
qed

text \<open>
  C4, as amended. When the source's \<open>getMergeAsTypes\<close> has answered and the target's
  \<open>selectMergeType\<close> answers null, \<open>mergeNodes\<close> raises nothing, for a source that is a
  child of the container: if the source offered \<open>'remove'\<close> it is taken out of the
  container's children and deleted, and every other node (the target among them) is as
  before; otherwise the document is unchanged. What is returned in both cases is the
  selection that \<open>createNodeSelection\<close> builds, on the document as it is then, for the
  target after a removal and for direction left, for the source otherwise; its kind is
  the helper's choice.
\<close>

theorem mergeNodes_null:
  assumes types: "ed_getMergeAsTypes (getEditing ev source) tx source sourceCoor = Inr sourceTypes"
    and null: "ed_selectMergeType (getEditing ev target) tx target sourceTypes targetCoor = Inr Null"
    and c: "tx_get tx cid = Some (ContainerNode cid t ns)"
    and s: "tx_get tx (node_id source) = Some source" "node_id source \<in> set ns" "node_id source \<noteq> cid"
    and r: "node_id (getRoot ev tx source) = node_id source"
  shows "(if ''remove'' \<in> set sourceTypes then
            (\<exists>tx'. mergeNodes ev tx (ContainerNode cid t ns) source sourceCoor target targetCoor direction
                      = Inr (Some (createNodeSelection ev tx' (node_id target) cid), tx') \<and>
                   tx_get tx' (node_id source) = None \<and>
                   tx_get tx' cid = Some (ContainerNode cid t (remove1 (node_id source) ns)) \<and>
                   (\<forall>j. j \<noteq> node_id source \<and> j \<noteq> cid \<longrightarrow> tx_get tx' j = tx_get tx j))
          else
            mergeNodes ev tx (ContainerNode cid t ns) source sourceCoor target targetCoor direction
              = Inr (Some (createNodeSelection ev tx
                             (if direction = Left then node_id target else node_id source) cid), tx))"
proof (cases "''remove'' \<in> set sourceTypes")
  case True
  from hide_then_delete[where root = "getRoot ev" and ?ns0.0 = ns, OF c s r]
  obtain tx' where h: "andThen (hide (getRoot ev) tx (ContainerNode cid t ns) (node_id source)) (tx_delete (node_id source)) = Inr tx'"
    and g: "\<forall>j. tx_get tx' j =
              (if j = node_id source then None
               else if j = cid then Some (ContainerNode cid t (remove1 (node_id source) ns))
               else tx_get tx j)"
    by blast
  from h have "mergeNodes ev tx (ContainerNode cid t ns) source sourceCoor target targetCoor direction
                      = Inr (Some (createNodeSelection ev tx' (node_id target) cid), tx')"
    using True types null
    by (auto simp: mergeNodes_def andThen_def deleteNode_def split: sum.splits)
  then show ?thesis using True g s(3) by auto
next
  case False
  then show ?thesis using types null
    by (simp add: mergeNodes_def andThen_def)
qed

theorem mergeNodes_null_witness:
  "ed_getMergeAsTypes (getEditing stdEnv (TextNode ''p1'' ''paragraph'' [] None)) imageDoc
      (TextNode ''p1'' ''paragraph'' [] None) \<lparr>path = [''p1'', ''content''], offset = 0\<rparr>
     = Inr [''text'', ''remove''] \<and>
   ed_selectMergeType (getEditing stdEnv (OtherNode ''img1'' ''image'')) imageDoc
      (OtherNode ''img1'' ''image'') [''text'', ''remove''] \<lparr>path = [''img1''], offset = 0\<rparr>
     = Inr Null \<and>
   mergeNodes stdEnv imageDoc (ContainerNode ''body'' ''container'' [''img1'', ''p1''])
      (TextNode ''p1'' ''paragraph'' [] None) \<lparr>path = [''p1'', ''content''], offset = 0\<rparr>
      (OtherNode ''img1'' ''image'') \<lparr>path = [''img1''], offset = 0\<rparr> Left
     = Inr (Some (NodeSelection ''img1'' ''body'' ModeFull),
            \<lparr>data = [ContainerNode ''body'' ''container'' [''img1''], OtherNode ''img1'' ''image''],
             ops = [Update [''body'', ''nodes''] (ArrayDelete 1 ''p1''),
                    Delete (TextNode ''p1'' ''paragraph'' [] None)]\<rparr>)"
  using mergeNodes_null [of stdEnv "TextNode ''p1'' ''paragraph'' [] None" imageDoc
      "\<lparr>path = [''p1'', ''content''], offset = 0\<rparr>" "[''text'', ''remove'']"
      "OtherNode ''img1'' ''image''" "\<lparr>path = [''img1''], offset = 0\<rparr>"
      "''body''" "''container''" "[''img1'', ''p1'']" Left]
  by (simp add: imageDoc_def mergeNodes_def stdEnv_def behaviours_def TextNodeEditing_def
      NodeEditing_def TextNodeEditing_getMergeAsTypes_def getNodeId_def isEmpty_def live_def
      tx_get_def hide_def hideAt_def getPosition_def nodes_def listRoot_def getContentPath_def
      tx_update_def make_diff_def record_op_def mapNode_def apply_diff_def removeAt_def
      andThen_def deleteNode_def tx_delete_def wholeNodeSelection_def)

text \<open>
  C4 as first stated does not hold: in a body holding the paragraph "foo" and an image,
  the image as source offers \<open>'image'\<close>, the paragraph as target selects null, nothing is
  removed, and with a \<open>createNodeSelection\<close> that selects a text node by its text the
  selection returned for the paragraph is a property selection, not a node selection.
\<close>

theorem mergeNodes_null_counterexample:
  "mergeNodes stdEnv fooImgDoc (ContainerNode ''body'' ''container'' [''p1'', ''img1''])
      (OtherNode ''img1'' ''image'') \<lparr>path = [''img1''], offset = 0\<rparr>
      (TextNode ''p1'' ''paragraph'' ''foo'' None) \<lparr>path = [''p1''], offset = 0\<rparr> Left
     = Inr (Some (PropertySelection \<lparr>path = [''p1'', ''content''], offset = 0\<rparr>
                    \<lparr>path = [''p1'', ''content''], offset = 3\<rparr> (Some ''body'')), fooImgDoc) \<and>
   \<not> isNodeSelection (PropertySelection \<lparr>path = [''p1'', ''content''], offset = 0\<rparr>
                          \<lparr>path = [''p1'', ''content''], offset = 3\<rparr> (Some ''body''))"
  by (simp add: fooImgDoc_def mergeNodes_def stdEnv_def behaviours_def TextNodeEditing_def
      NodeEditing_def NodeEditing_getMergeAsTypes_def TextNodeEditing_selectMergeType_def
      getNodeId_def isEmpty_def live_def tx_get_def andThen_def wholeNodeSelection_def
      isNodeSelection_def)

text \<open>
  C6. In a body holding "foo" and "bar", \<open>merge\<close> to the left from the second node, and
  equally \<open>merge\<close> to the right from the first, goes through the negotiation of the text
  behaviour (the source offers \<open>'text'\<close>, the target selects it, the source leaves the
  container, the target appends): the body is left with the one node "foobar", the
  node "bar" is deleted, its annotation on \<open>[0,2)\<close> is on "foobar" at \<open>[3,5)\<close>, and the
  cursor returned is collapsed at offset 3 of "foobar".
\<close>

theorem merge_foo_bar:
  "merge stdEnv fooBarDoc (ContainerNode ''body'' ''container'' [''p1'', ''p2''])
      \<lparr>path = [''p2'', ''content''], offset = 0\<rparr> Left
     = Inr (Some (PropertySelection \<lparr>path = [''p1'', ''content''], offset = 3\<rparr>
                    \<lparr>path = [''p1'', ''content''], offset = 3\<rparr> (Some ''body'')),
            \<lparr>data = [ContainerNode ''body'' ''container'' [''p1''],
                     TextNode ''p1'' ''paragraph'' ''foobar'' None,
                     Annotation ''a1'' ''strong'' \<lparr>path = [''p1'', ''content''], offset = 3\<rparr>
                       \<lparr>path = [''p1'', ''content''], offset = 5\<rparr> False False],
             ops = [Update [''body'', ''nodes''] (ArrayDelete 1 ''p2''),
                    Update [''p1'', ''content''] (TextInsert 3 ''bar''),
                    SetOp [''a1'', ''start''] (CoorVal \<lparr>path = [''p1'', ''content''], offset = 3\<rparr>)
                      (CoorVal \<lparr>path = [''p2'', ''content''], offset = 0\<rparr>),
                    SetOp [''a1'', ''end''] (CoorVal \<lparr>path = [''p1'', ''content''], offset = 5\<rparr>)
                      (CoorVal \<lparr>path = [''p2'', ''content''], offset = 2\<rparr>),
                    Delete (TextNode ''p2'' ''paragraph'' ''bar'' None)]\<rparr>) \<and>
   merge stdEnv fooBarDoc (ContainerNode ''body'' ''container'' [''p1'', ''p2''])
      \<lparr>path = [''p1'', ''content''], offset = 3\<rparr> Right
     = merge stdEnv fooBarDoc (ContainerNode ''body'' ''container'' [''p1'', ''p2''])
         \<lparr>path = [''p2'', ''content''], offset = 0\<rparr> Left"
  by (simp add: fooBarDoc_def merge_def mergeNodes_def stdEnv_def behaviours_def TextNodeEditing_def
      NodeEditing_def TextNodeEditing_getMergeAsTypes_def TextNodeEditing_selectMergeType_def
      NodeEditing_convertForMerge_def TextNodeEditing_mergeNode_def getNodeId_def getChildAt_def
      nodeIdAt_def getPosition_def nodes_def live_def tx_get_def listRoot_def isEmpty_def hide_def
      hideAt_def getContentPath_def tx_update_def make_diff_def record_op_def mapNode_def
      apply_diff_def removeAt_def andThen_def getText_def getPath_def transferAnnotations_def
      transferAnnotation_def getAnnotations_def tx_set_def old_val_def apply_set_def
      deleteNode_def tx_delete_def createSelection_def getProperty_def)

section \<open>Theorems about deleteRange\<close>


























end
